theory Spec2Isabelle
  imports Main
begin

section \<open>Python strings\<close>

text \<open>
  Strings are lists of characters. The case mappings and the character classes below are
  those of Python's \<^verbatim>\<open>str\<close> on ASCII text: \<^verbatim>\<open>upper\<close> and \<^verbatim>\<open>lower\<close> move the
  letters a-z and A-Z and leave every other character alone, \<^verbatim>\<open>strip\<close> and \<^verbatim>\<open>split\<close>
  treat the ASCII white space of \<^verbatim>\<open>str.isspace\<close> (tab, line feed, vertical tab, form
  feed, carriage return, the four separators 0x1C-0x1F and the blank) as white space.
  Characters beyond ASCII are carried through unchanged.
\<close>

definition is_space :: "char \<Rightarrow> bool" where
  "is_space c = (c \<in> set [CHR 0x09, CHR 0x0A, CHR 0x0B, CHR 0x0C, CHR 0x0D,
                             CHR 0x1C, CHR 0x1D, CHR 0x1E, CHR 0x1F, CHR 0x20])"

definition lowers :: string where
  "lowers = ''abcdefghijklmnopqrstuvwxyz''"

definition uppers :: string where
  "uppers = ''ABCDEFGHIJKLMNOPQRSTUVWXYZ''"

definition digits :: string where
  "digits = ''0123456789''"

definition is_upper :: "char \<Rightarrow> bool" where
  "is_upper c = (c \<in> set uppers)"

definition is_lower :: "char \<Rightarrow> bool" where
  "is_lower c = (c \<in> set lowers)"

definition is_digit :: "char \<Rightarrow> bool" where
  "is_digit c = (c \<in> set digits)"

definition upper_char :: "char \<Rightarrow> char" where
  "upper_char c = (case map_of (zip lowers uppers) c of None \<Rightarrow> c | Some u \<Rightarrow> u)"

definition lower_char :: "char \<Rightarrow> char" where
  "lower_char c = (case map_of (zip uppers lowers) c of None \<Rightarrow> c | Some l \<Rightarrow> l)"

definition py_upper :: "string \<Rightarrow> string" where
  "py_upper s = map upper_char s"

definition py_lower :: "string \<Rightarrow> string" where
  "py_lower s = map lower_char s"

definition py_strip :: "string \<Rightarrow> string" where
  "py_strip s = rev (dropWhile is_space (rev (dropWhile is_space s)))"

definition starts_with :: "string \<Rightarrow> string \<Rightarrow> bool" where
  "starts_with p s = (take (length p) s = p)"

definition ends_with :: "string \<Rightarrow> string \<Rightarrow> bool" where
  "ends_with p s = (length p \<le> length s \<and> drop (length s - length p) s = p)"

text \<open>\<^verbatim>\<open>p in s\<close> on strings: \<open>p\<close> occurs in \<open>s\<close> as a contiguous substring.\<close>

fun contains :: "string \<Rightarrow> string \<Rightarrow> bool" where
  "contains p [] = (p = [])"
| "contains p (c # cs) = (starts_with p (c # cs) \<or> contains p cs)"

text \<open>\<^verbatim>\<open>s.split()\<close>: the maximal runs of characters that are not white space.\<close>

fun split_ws :: "string \<Rightarrow> string \<Rightarrow> string list" where
  "split_ws cur [] = (if cur = [] then [] else [cur])"
| "split_ws cur (c # cs) =
     (if is_space c then (if cur = [] then split_ws [] cs else cur # split_ws [] cs)
      else split_ws (cur @ [c]) cs)"

definition py_split :: "string \<Rightarrow> string list" where
  "py_split s = split_ws [] s"

text \<open>\<^verbatim>\<open>s.split(sep)\<close> for a separator of one character: empty fields are kept.\<close>

fun split_on :: "char \<Rightarrow> string \<Rightarrow> string \<Rightarrow> string list" where
  "split_on sep cur [] = [cur]"
| "split_on sep cur (c # cs) =
     (if c = sep then cur # split_on sep [] cs else split_on sep (cur @ [c]) cs)"

text \<open>\<^verbatim>\<open>s[1:-1]\<close>: the string without its first and its last character.\<close>

definition unquote :: "string \<Rightarrow> string" where
  "unquote s = butlast (tl s)"

definition quoted :: "string \<Rightarrow> bool" where
  "quoted s = (starts_with [CHR 0x22] s \<and> ends_with [CHR 0x22] s)"

text \<open>
  \<^verbatim>\<open>int(s)\<close> in base ten: white space around the numeral is dropped, a sign may lead,
  and single underscores may stand between digits. \<open>None\<close> is \<^verbatim>\<open>ValueError\<close>. (The
  interpreter's limit on the number of digits is not modelled.)
\<close>

definition digit_val :: "char \<Rightarrow> nat" where
  "digit_val c = (case map_of (zip digits [0 ..< 10]) c of None \<Rightarrow> 0 | Some d \<Rightarrow> d)"

fun parse_digits :: "nat \<Rightarrow> string \<Rightarrow> nat option" where
  "parse_digits acc [] = Some acc"
| "parse_digits acc [c] = (if is_digit c then Some (10 * acc + digit_val c) else None)"
| "parse_digits acc (c # d # ds) =
     (if is_digit c then parse_digits (10 * acc + digit_val c) (d # ds)
      else if c = CHR ''_'' \<and> is_digit d then parse_digits (10 * acc + digit_val d) ds
      else None)"

definition parse_nat :: "string \<Rightarrow> nat option" where
  "parse_nat s =
     (case s of [] \<Rightarrow> None
      | c # cs \<Rightarrow> if is_digit c then parse_digits (digit_val c) cs else None)"

definition py_int :: "string \<Rightarrow> int option" where
  "py_int s =
     (case py_strip s of [] \<Rightarrow> None
      | c # cs \<Rightarrow>
          if c = CHR ''-'' then map_option (\<lambda>n. - int n) (parse_nat cs)
          else if c = CHR ''+'' then map_option int (parse_nat cs)
          else map_option int (parse_nat (c # cs)))"

text \<open>\<^verbatim>\<open>str(n)\<close> for an integer: its decimal numeral.\<close>

fun str_of_nat :: "nat \<Rightarrow> string" where
  "str_of_nat n =
     (if n < 10 then [digits ! n] else str_of_nat (n div 10) @ [digits ! (n mod 10)])"

declare str_of_nat.simps [simp del]

definition str_of_int :: "int \<Rightarrow> string" where
  "str_of_int i = (if i < 0 then CHR ''-'' # str_of_nat (nat (- i)) else str_of_nat (nat i))"

section \<open>Values and action records\<close>

text \<open>
  The values an action dictionary holds. The floating-point numbers of the interpreter
  are kept abstract (type \<open>'f\<close>): the program only parses them, formats them and hands
  them to \<^verbatim>\<open>time.sleep\<close>.
\<close>

datatype 'f pyval = PNone | PBool bool | PInt int | PFloat 'f | PStr string

text \<open>
  An action is a dictionary; it is kept as the list of its items in insertion order, and
  \<^verbatim>\<open>action.get(k)\<close> is \<open>map_of\<close> (\<open>None\<close> when the key is absent),
  \<^verbatim>\<open>action.get(k, d)\<close> is \<open>get_or\<close>.
\<close>

type_synonym 'f action = "(string \<times> 'f pyval) list"

definition get :: "'f action \<Rightarrow> string \<Rightarrow> 'f pyval" where
  "get a k = (case map_of a k of None \<Rightarrow> PNone | Some v \<Rightarrow> v)"

definition get_or :: "'f action \<Rightarrow> string \<Rightarrow> 'f pyval \<Rightarrow> 'f pyval" where
  "get_or a k d = (case map_of a k of None \<Rightarrow> d | Some v \<Rightarrow> v)"

section \<open>The action grammar: \<^verbatim>\<open>DecisionMaker._parse_action\<close>\<close>

text \<open>
  \<open>flt\<close> is the interpreter's \<^verbatim>\<open>float(s)\<close>, \<open>None\<close> when it raises \<^verbatim>\<open>ValueError\<close>.
  Every branch works on \<open>action\<close>, the stripped and upper-cased input; only the
  \<open>unknown\<close> record carries the text as it came.
\<close>

definition unknown_action :: "string \<Rightarrow> 'f action" where
  "unknown_action action_text = [(''type'', PStr ''unknown''), (''raw'', PStr action_text)]"

definition parse_wait_duration :: "(string \<Rightarrow> 'f option) \<Rightarrow> string \<Rightarrow> 'f pyval" where
  "parse_wait_duration flt s =
     (let parts = py_split s in
      if length parts > 1 then
        (case flt (parts ! 1) of Some f \<Rightarrow> PFloat f | None \<Rightarrow> PInt 2)
      else PInt 2)"

definition parse_action :: "(string \<Rightarrow> 'f option) \<Rightarrow> string \<Rightarrow> 'f action" where
  "parse_action flt action_text =
     (let action = py_upper (py_strip action_text) in
      if starts_with ''CLICK'' action then
        (let parts = py_split action in
         if length parts \<ge> 3 then
           (case py_int (parts ! 1) of
              None \<Rightarrow> unknown_action action_text
            | Some x \<Rightarrow>
               (case py_int (parts ! 2) of
                  None \<Rightarrow> unknown_action action_text
                | Some y \<Rightarrow> [(''type'', PStr ''click''), (''x'', PInt x), (''y'', PInt y)]))
         else unknown_action action_text)
      else if starts_with ''TYPE'' action then
        (let text_match = py_strip (drop 4 action) in
         if quoted text_match then [(''type'', PStr ''type''), (''text'', PStr (unquote text_match))]
         else [(''type'', PStr ''type''), (''text'', PStr text_match)])
      else if starts_with ''PRESS'' action then
        (let key_match = py_strip (drop 5 action);
             key = (if quoted key_match then py_lower (unquote key_match)
                    else py_lower key_match)
         in [(''type'', PStr ''press''), (''key'', PStr key)])
      else if starts_with ''WAIT'' action then
        [(''type'', PStr ''wait''), (''duration'', parse_wait_duration flt action)]
      else if starts_with ''SCROLL'' action then
        (let direction = (if contains ''UP'' action then ''up'' else ''down'')
         in [(''type'', PStr ''scroll''), (''direction'', PStr direction)])
      else if starts_with ''RUN'' action then
        (let cmd0 = py_strip (drop 3 action);
             cmd = (if quoted cmd0 then unquote cmd0 else cmd0)
         in [(''type'', PStr ''run''), (''cmd'', PStr cmd)])
      else if starts_with ''LAUNCH'' action then
        (let app0 = py_strip (drop 6 action);
             app = (if quoted app0 then unquote app0 else app0)
         in if contains ''CHROME'' (py_upper app) then [(''type'', PStr ''launch_chrome'')]
            else [(''type'', PStr ''launch''), (''app'', PStr app)])
      else unknown_action action_text)"

section \<open>The collaborators\<close>

text \<open>
  A raised exception is the text \<^verbatim>\<open>str(e)\<close> of it; a call that may raise returns
  \<open>Inl\<close> of that text or \<open>Inr\<close> of its value, together with the world it leaves.
  The world \<open>'w\<close> is everything outside the agent: the display, the pointer, the
  keyboard, the language model, the processes spawned, and the thread that owns the agent.
  The controllers, the launcher, the capture and recognition back ends, the language
  model and the planner are taken at their interfaces, one field each.
\<close>

type_synonym exn = string

datatype owner_call = Pause | Resume | Stop

record text_element =
  te_text :: string
  te_x :: int
  te_y :: int
  te_width :: int
  te_height :: int
  te_confidence :: int

record button =
  b_x :: int
  b_y :: int
  b_width :: int
  b_height :: int

record 'img analysis =
  text_elements :: "text_element list"
  ui_buttons :: "button list"
  raw_text :: string
  screenshot :: 'img

record step =
  number :: int
  description :: string
  details :: "string list"

record ('w, 'img, 'f) env =
  py_float :: "string \<Rightarrow> 'f option"
  float_str :: "'f \<Rightarrow> string"
  mouse_move_to :: "int \<Rightarrow> int \<Rightarrow> 'w \<Rightarrow> (exn + bool) \<times> 'w"
  mouse_position :: "'w \<Rightarrow> (exn + int \<times> int) \<times> 'w"
  mouse_click :: "'f pyval \<Rightarrow> 'f pyval \<Rightarrow> 'w \<Rightarrow> (exn + bool) \<times> 'w"
  mouse_double_click :: "'f pyval \<Rightarrow> 'f pyval \<Rightarrow> 'w \<Rightarrow> (exn + unit) \<times> 'w"
  mouse_right_click :: "'f pyval \<Rightarrow> 'f pyval \<Rightarrow> 'w \<Rightarrow> (exn + unit) \<times> 'w"
  mouse_drag_to ::
    "'f pyval \<Rightarrow> 'f pyval \<Rightarrow> 'f pyval \<Rightarrow> 'f pyval \<Rightarrow> 'w \<Rightarrow> (exn + unit) \<times> 'w"
  mouse_scroll :: "'f pyval \<Rightarrow> 'f pyval \<Rightarrow> 'w \<Rightarrow> (exn + unit) \<times> 'w"
  keyboard_type_text :: "'f pyval \<Rightarrow> 'w \<Rightarrow> (exn + unit) \<times> 'w"
  keyboard_hotkey :: "string list \<Rightarrow> 'w \<Rightarrow> (exn + unit) \<times> 'w"
  keyboard_press_key :: "string \<Rightarrow> 'w \<Rightarrow> (exn + unit) \<times> 'w"
  time_sleep :: "'f pyval \<Rightarrow> 'w \<Rightarrow> (exn + unit) \<times> 'w"
  subprocess_popen :: "'f pyval \<Rightarrow> 'w \<Rightarrow> (exn + unit) \<times> 'w"
  launch_app :: "'f pyval \<Rightarrow> 'w \<Rightarrow> (exn + bool) \<times> 'w"
  launch_chrome :: "'w \<Rightarrow> (exn + bool) \<times> 'w"
  save_screenshot :: "'w \<Rightarrow> (exn + string) \<times> 'w"
  capture_full_screen :: "'w \<Rightarrow> (exn + 'img) \<times> 'w"
  extract_text :: "'img \<Rightarrow> exn + string"
  extract_text_with_positions :: "'img \<Rightarrow> exn + text_element list"
  detect_buttons :: "'img \<Rightarrow> exn + button list"
  generate_action :: "string \<Rightarrow> string \<Rightarrow> string \<Rightarrow> 'w \<Rightarrow> (exn + string) \<times> 'w"
  generate_recovery :: "string \<Rightarrow> 'f action \<Rightarrow> string \<Rightarrow> 'w \<Rightarrow> (exn + string) \<times> 'w"
  plan_task :: "string \<Rightarrow> string \<Rightarrow> 'w \<Rightarrow> (exn + step list) \<times> 'w"
  owner_calls :: "'w \<Rightarrow> owner_call list \<times> 'w"

text \<open>
  \<open>generate_action\<close> and \<open>generate_recovery\<close> are \<^verbatim>\<open>OllamaClient.generate\<close> on the
  action-decision prompt and on the error-handling prompt, as functions of the values the
  prompt is built from. \<open>save_screenshot\<close> is the whole screenshot branch of the
  dispatcher (directory, time stamp, capture, save) and returns the file name.
  \<open>owner_calls\<close> are the calls to \<^verbatim>\<open>pause\<close>, \<^verbatim>\<open>resume\<close> and \<^verbatim>\<open>stop\<close> the owning
  thread has made since the agent last read its flags.
\<close>

section \<open>The action dispatcher: \<^verbatim>\<open>ActionExecutor.execute_action\<close>\<close>

definition type_name :: "'f pyval \<Rightarrow> string" where
  "type_name v =
     (case v of PNone \<Rightarrow> ''NoneType'' | PBool _ \<Rightarrow> ''bool'' | PInt _ \<Rightarrow> ''int''
      | PFloat _ \<Rightarrow> ''float'' | PStr _ \<Rightarrow> ''str'')"

definition py_str :: "('w, 'img, 'f) env \<Rightarrow> 'f pyval \<Rightarrow> string" where
  "py_str env v =
     (case v of PNone \<Rightarrow> ''None'' | PBool b \<Rightarrow> (if b then ''True'' else ''False'')
      | PInt i \<Rightarrow> str_of_int i | PFloat f \<Rightarrow> float_str env f | PStr s \<Rightarrow> s)"

text \<open>The texts of the \<^verbatim>\<open>TypeError\<close> and \<^verbatim>\<open>AttributeError\<close> the dispatcher itself can raise.\<close>

definition not_subscriptable :: "'f pyval \<Rightarrow> exn" where
  "not_subscriptable v =
     [CHR 0x27] @ type_name v @ [CHR 0x27] @ '' object is not subscriptable''"

definition not_iterable :: "'f pyval \<Rightarrow> exn" where
  "not_iterable v =
     ''argument of type '' @ [CHR 0x27] @ type_name v @ [CHR 0x27] @ '' is not iterable''"

definition no_attribute_lower :: "'f pyval \<Rightarrow> exn" where
  "no_attribute_lower v =
     [CHR 0x27] @ type_name v @ [CHR 0x27] @ '' object has no attribute ''
       @ [CHR 0x27] @ ''lower'' @ [CHR 0x27]"

text \<open>
  A controller call whose value is thrown away: when it returns, the branch returns
  \<open>(True, msg)\<close>; when it raises, so does the branch.
\<close>

definition and_then_true :: "(exn + 'a) \<times> 'w \<Rightarrow> string \<Rightarrow> (exn + bool \<times> string) \<times> 'w" where
  "and_then_true r msg =
     (case r of (Inl e, w') \<Rightarrow> (Inl e, w') | (Inr _, w') \<Rightarrow> (Inr (True, msg), w'))"

text \<open>The body of the \<^verbatim>\<open>try\<close> block, one branch for each action type.\<close>

definition dispatch ::
  "('w, 'img, 'f) env \<Rightarrow> string \<Rightarrow> 'f action \<Rightarrow> 'w \<Rightarrow> (exn + bool \<times> string) \<times> 'w" where
  "dispatch env action_type action w =
     (if action_type = ''click'' then
        (let x = get action ''x''; y = get action ''y'' in
         and_then_true (mouse_click env x y w)
           (''Clicked at ('' @ py_str env x @ '', '' @ py_str env y @ '')''))
      else if action_type = ''type'' then
        (let text = get_or action ''text'' (PStr []) in
         case keyboard_type_text env text w of
           (Inl e, w') \<Rightarrow> (Inl e, w')
         | (Inr _, w') \<Rightarrow>
            (case text of
               PStr t \<Rightarrow>
                 (Inr (True, ''Typed text: '' @ take 20 t @ (if length t > 20 then ''...'' else [])), w')
             | _ \<Rightarrow> (Inl (not_subscriptable text), w')))
      else if action_type = ''press'' then
        (let key = get_or action ''key'' (PStr []) in
         case key of
           PStr k \<Rightarrow>
             if CHR ''+'' \<in> set k then
               and_then_true (keyboard_hotkey env (map py_strip (split_on CHR ''+'' [] k)) w)
                 (''Pressed hotkey: '' @ k)
             else and_then_true (keyboard_press_key env k w) (''Pressed key: '' @ k)
         | _ \<Rightarrow> (Inl (not_iterable key), w))
      else if action_type = ''wait'' then
        (let duration = get_or action ''duration'' (PInt 2) in
         and_then_true (time_sleep env duration w)
           (''Waited for '' @ py_str env duration @ '' seconds''))
      else if action_type = ''scroll'' then
        (let direction = get_or action ''direction'' (PStr ''down'');
             clicks = get_or action ''clicks'' (PInt 3) in
         and_then_true (mouse_scroll env direction clicks w)
           (''Scrolled '' @ py_str env direction @ '' '' @ py_str env clicks @ '' clicks''))
      else if action_type = ''double_click'' then
        (let x = get action ''x''; y = get action ''y'' in
         and_then_true (mouse_double_click env x y w)
           (''Double-clicked at ('' @ py_str env x @ '', '' @ py_str env y @ '')''))
      else if action_type = ''right_click'' then
        (let x = get action ''x''; y = get action ''y'' in
         and_then_true (mouse_right_click env x y w)
           (''Right-clicked at ('' @ py_str env x @ '', '' @ py_str env y @ '')''))
      else if action_type = ''drag'' then
        (let x1 = get action ''start_x''; y1 = get action ''start_y'';
             x2 = get action ''end_x''; y2 = get action ''end_y'' in
         and_then_true (mouse_drag_to env x1 y1 x2 y2 w)
           (''Dragged from ('' @ py_str env x1 @ '', '' @ py_str env y1 @ '') to (''
              @ py_str env x2 @ '', '' @ py_str env y2 @ '')''))
      else if action_type = ''run'' then
        (let cmd = get action ''cmd'' in
         and_then_true (subprocess_popen env cmd w) (''Ran command: '' @ py_str env cmd))
      else if action_type = ''launch'' then
        (let app_name = get_or action ''app'' (PStr []) in
         case launch_app env app_name w of
           (Inl e, w') \<Rightarrow> (Inl e, w')
         | (Inr success, w') \<Rightarrow>
            (Inr (success, if success then ''Launched app: '' @ py_str env app_name
                           else ''Failed to launch: '' @ py_str env app_name), w'))
      else if action_type = ''launch_chrome'' then
        (case launch_chrome env w of
           (Inl e, w') \<Rightarrow> (Inl e, w')
         | (Inr success, w') \<Rightarrow>
            (Inr (success, if success then ''Launched Chrome'' else ''Failed to launch Chrome''), w'))
      else if action_type = ''screenshot'' then
        (case save_screenshot env w of
           (Inl e, w') \<Rightarrow> (Inl e, w')
         | (Inr filename, w') \<Rightarrow> (Inr (True, ''Saved screenshot to '' @ filename), w'))
      else (Inr (False, ''Unknown action type: '' @ action_type), w))"

text \<open>
  \<^verbatim>\<open>action.get('type', '').lower()\<close> stands before the \<^verbatim>\<open>try\<close>: on a type that is
  not a string it raises out of the dispatcher. Everything the body raises is caught and
  returned as \<open>(False, ''Error: '' @ e)\<close>.
\<close>

definition execute_action ::
  "('w, 'img, 'f) env \<Rightarrow> 'f action \<Rightarrow> 'w \<Rightarrow> (exn + bool \<times> string) \<times> 'w" where
  "execute_action env action w =
     (case get_or action ''type'' (PStr []) of
        PStr t \<Rightarrow>
          (case dispatch env (py_lower t) action w of
             (Inl e, w') \<Rightarrow> (Inr (False, ''Error: '' @ e), w')
           | (Inr r, w') \<Rightarrow> (Inr r, w'))
      | v \<Rightarrow> (Inl (no_attribute_lower v), w))"

section \<open>The agent's state\<close>

text \<open>
  One record holds the fields of \<^verbatim>\<open>AgentCore\<close> and of the components it owns:
  \<open>cached_analysis\<close> is \<^verbatim>\<open>ScreenAnalyzer._cached_analysis\<close>; \<open>task_status\<close>,
  \<open>current_plan\<close>, \<open>current_step_index\<close>, \<open>screen_history\<close> and \<open>action_history\<close> are
  the \<^verbatim>\<open>ContextManager\<close>'s; \<open>session_log\<close> is the \<^verbatim>\<open>HistoryTracker\<close>'s. Time stamps
  are left out. \<open>trace\<close> is not a field of the program: it records, in order, the
  moments the properties count (a capture, a cache invalidation and the place in the code it
  was called from, the start of a step, a call for recovery advice, a call of the planner).
\<close>

datatype call_site = BeforePlanning | BeforeStep nat | AfterAction nat

datatype event =
    EvCapture
  | EvInvalidate call_site
  | EvStep nat
  | EvHandleError nat
  | EvPlanner

datatype 'f log_event =
    LogSessionStart
  | LogTaskStart string
  | LogTaskEnd bool
  | LogAction "'f action" bool string

record ('w, 'img, 'f) agent =
  world :: 'w
  cached_analysis :: "'img analysis option"
  is_running :: bool
  is_paused :: bool
  task_queue :: "string list"
  current_task :: "string option"
  task_status :: string
  current_plan :: "step list"
  current_step_index :: int
  screen_history :: "'img analysis list"
  action_history :: "('f action \<times> bool \<times> string) list"
  session_log :: "'f log_event list"
  trace :: "event list"

definition emit :: "event \<Rightarrow> ('w, 'img, 'f) agent \<Rightarrow> ('w, 'img, 'f) agent" where
  "emit ev s = s\<lparr>trace := trace s @ [ev]\<rparr>"

subsection \<open>\<^verbatim>\<open>pause\<close>, \<^verbatim>\<open>resume\<close>, \<^verbatim>\<open>stop\<close>\<close>

definition pause :: "('w, 'img, 'f) agent \<Rightarrow> ('w, 'img, 'f) agent" where
  "pause s = s\<lparr>is_paused := True\<rparr>"

definition resume :: "('w, 'img, 'f) agent \<Rightarrow> ('w, 'img, 'f) agent" where
  "resume s = s\<lparr>is_paused := False\<rparr>"

text \<open>
  \<^verbatim>\<open>stop\<close> clears \<open>is_running\<close> when the agent runs (the join of the agent thread and
  the release of the worker pools are not modelled).
\<close>

definition stop :: "('w, 'img, 'f) agent \<Rightarrow> ('w, 'img, 'f) agent" where
  "stop s = (if \<not> is_running s then s else s\<lparr>is_running := False\<rparr>)"

definition apply_call :: "('w, 'img, 'f) agent \<Rightarrow> owner_call \<Rightarrow> ('w, 'img, 'f) agent" where
  "apply_call s c = (case c of Pause \<Rightarrow> pause s | Resume \<Rightarrow> resume s | Stop \<Rightarrow> stop s)"

text \<open>
  The flags are written by the owning thread and read by the agent thread. A read sees
  every call the owner has made so far: \<open>poll_owner\<close> applies them, in order.
\<close>

definition poll_owner :: "('w, 'img, 'f) env \<Rightarrow> ('w, 'img, 'f) agent \<Rightarrow> ('w, 'img, 'f) agent" where
  "poll_owner env s =
     (case owner_calls env (world s) of (calls, w') \<Rightarrow> foldl apply_call (s\<lparr>world := w'\<rparr>) calls)"

subsection \<open>The perception cache: \<^verbatim>\<open>ScreenAnalyzer\<close>\<close>

definition clear_cache :: "call_site \<Rightarrow> ('w, 'img, 'f) agent \<Rightarrow> ('w, 'img, 'f) agent" where
  "clear_cache site s = emit (EvInvalidate site) (s\<lparr>cached_analysis := None\<rparr>)"

text \<open>
  The three recognisers read the one screenshot and are joined in the order text, text
  elements, buttons; the first that raised is the exception of the call.
\<close>

definition analyse_image :: "('w, 'img, 'f) env \<Rightarrow> 'img \<Rightarrow> exn + 'img analysis" where
  "analyse_image env img =
     (case extract_text env img of
        Inl e \<Rightarrow> Inl e
      | Inr text \<Rightarrow>
         (case extract_text_with_positions env img of
            Inl e \<Rightarrow> Inl e
          | Inr elems \<Rightarrow>
             (case detect_buttons env img of
                Inl e \<Rightarrow> Inl e
              | Inr bs \<Rightarrow>
                 Inr \<lparr>text_elements = elems, ui_buttons = bs, raw_text = text, screenshot = img\<rparr>)))"

definition analyze_current_screen ::
  "('w, 'img, 'f) env \<Rightarrow> bool \<Rightarrow> ('w, 'img, 'f) agent \<Rightarrow> (exn + 'img analysis) \<times> ('w, 'img, 'f) agent" where
  "analyze_current_screen env force_new s =
     (case (if force_new then None else cached_analysis s) of
        Some cached \<Rightarrow> (Inr cached, s)
      | None \<Rightarrow>
         (let s1 = emit EvCapture s in
          case capture_full_screen env (world s1) of
            (Inl e, w') \<Rightarrow> (Inl e, s1\<lparr>world := w'\<rparr>)
          | (Inr img, w') \<Rightarrow>
             (case analyse_image env img of
                Inl e \<Rightarrow> (Inl e, s1\<lparr>world := w'\<rparr>)
              | Inr a \<Rightarrow> (Inr a, s1\<lparr>world := w', cached_analysis := Some a\<rparr>))))"

subsection \<open>\<^verbatim>\<open>ContextManager\<close> and \<^verbatim>\<open>HistoryTracker\<close>\<close>

text \<open>\<^verbatim>\<open>deque(maxlen=n).append\<close>: the oldest entry is dropped when the deque is full.\<close>

definition deque_append :: "nat \<Rightarrow> 'a list \<Rightarrow> 'a \<Rightarrow> 'a list" where
  "deque_append n xs x = (let ys = xs @ [x] in drop (length ys - n) ys)"

definition max_history :: nat where
  "max_history = 20"

definition set_plan :: "step list \<Rightarrow> ('w, 'img, 'f) agent \<Rightarrow> ('w, 'img, 'f) agent" where
  "set_plan plan s = s\<lparr>current_plan := plan, current_step_index := (if plan \<noteq> [] then 0 else - 1)\<rparr>"

definition add_screen :: "'img analysis \<Rightarrow> ('w, 'img, 'f) agent \<Rightarrow> ('w, 'img, 'f) agent" where
  "add_screen a s = s\<lparr>screen_history := deque_append max_history (screen_history s) a\<rparr>"

definition add_action ::
  "'f action \<Rightarrow> bool \<Rightarrow> string \<Rightarrow> ('w, 'img, 'f) agent \<Rightarrow> ('w, 'img, 'f) agent" where
  "add_action a success result s =
     s\<lparr>action_history := deque_append max_history (action_history s) (a, success, result)\<rparr>"

definition set_task_completed :: "('w, 'img, 'f) agent \<Rightarrow> ('w, 'img, 'f) agent" where
  "set_task_completed s = s\<lparr>task_status := ''completed''\<rparr>"

definition set_task_failed :: "('w, 'img, 'f) agent \<Rightarrow> ('w, 'img, 'f) agent" where
  "set_task_failed s = s\<lparr>task_status := ''failed''\<rparr>"

definition log_action ::
  "'f action \<Rightarrow> bool \<Rightarrow> string \<Rightarrow> ('w, 'img, 'f) agent \<Rightarrow> ('w, 'img, 'f) agent" where
  "log_action a success result s = s\<lparr>session_log := session_log s @ [LogAction a success result]\<rparr>"

definition log_task_completion :: "bool \<Rightarrow> ('w, 'img, 'f) agent \<Rightarrow> ('w, 'img, 'f) agent" where
  "log_task_completion success s = s\<lparr>session_log := session_log s @ [LogTaskEnd success]\<rparr>"

text \<open>\<^verbatim>\<open>self.current_task\<close> as the prompts format it.\<close>

definition task_text :: "('w, 'img, 'f) agent \<Rightarrow> string" where
  "task_text s = (case current_task s of None \<Rightarrow> ''None'' | Some t \<Rightarrow> t)"

subsection \<open>\<^verbatim>\<open>PromptTemplates\<close> and \<^verbatim>\<open>DecisionMaker\<close>\<close>

text \<open>
  A call that passes all its arguments by keyword, as the interpreter binds it: the first
  keyword that is not the name of a parameter raises \<^verbatim>\<open>TypeError\<close>, and so does a
  parameter that no keyword names. \<open>None\<close> is a call that binds. (The text of the second
  error is given for one missing parameter.)
\<close>

definition check_keywords :: "string \<Rightarrow> string list \<Rightarrow> string list \<Rightarrow> exn option" where
  "check_keywords fname params keywords =
     (case filter (\<lambda>k. k \<notin> set params) keywords of
        k # _ \<Rightarrow>
          Some (fname @ ''() got an unexpected keyword argument '' @ [CHR 0x27] @ k @ [CHR 0x27])
      | [] \<Rightarrow>
         (case filter (\<lambda>p. p \<notin> set keywords) params of
            [] \<Rightarrow> None
          | p # _ \<Rightarrow>
              Some (fname @ ''() missing 1 required positional argument: ''
                      @ [CHR 0x27] @ p @ [CHR 0x27])))"

text \<open>The parameters of the two template functions the decision maker calls.\<close>

definition action_decision_prompt_params :: "string list" where
  "action_decision_prompt_params =
     [''task_description'', ''current_step_description'', ''screen_description'']"

definition error_handling_prompt_params :: "string list" where
  "error_handling_prompt_params =
     [''task_description'', ''failed_action'', ''screen_description'']"

text \<open>
  \<^verbatim>\<open>decide_next_action\<close> builds its prompt with the keywords \<^verbatim>\<open>task_description\<close>,
  \<^verbatim>\<open>current_step\<close> and \<^verbatim>\<open>screen_description\<close>; the language model is asked only when
  the template call has returned. \<^verbatim>\<open>handle_error\<close> builds its prompt with the keywords
  \<^verbatim>\<open>task_description\<close>, \<^verbatim>\<open>failed_action\<close> and \<^verbatim>\<open>screen_description\<close>.
\<close>

definition decide_next_action ::
  "('w, 'img, 'f) env \<Rightarrow> string \<Rightarrow> string \<Rightarrow> string \<Rightarrow> 'w \<Rightarrow> (exn + 'f action) \<times> 'w" where
  "decide_next_action env task_description current_step screen_description w =
     (case check_keywords ''PromptTemplates.get_action_decision_prompt''
             action_decision_prompt_params
             [''task_description'', ''current_step'', ''screen_description''] of
        Some e \<Rightarrow> (Inl e, w)
      | None \<Rightarrow>
         (case generate_action env task_description current_step screen_description w of
            (Inl e, w') \<Rightarrow> (Inl e, w')
          | (Inr response, w') \<Rightarrow>
              (Inr (parse_action (py_float env) (py_strip response)), w')))"

definition handle_error ::
  "('w, 'img, 'f) env \<Rightarrow> string \<Rightarrow> 'f action \<Rightarrow> string \<Rightarrow> 'w \<Rightarrow> (exn + string) \<times> 'w" where
  "handle_error env task_description failed_action screen_description w =
     (case check_keywords ''PromptTemplates.get_error_handling_prompt''
             error_handling_prompt_params
             [''task_description'', ''failed_action'', ''screen_description''] of
        Some e \<Rightarrow> (Inl e, w)
      | None \<Rightarrow> generate_recovery env task_description failed_action screen_description w)"

section \<open>The execution loop: \<^verbatim>\<open>AgentCore._execute_plan\<close>\<close>

subsection \<open>Deterministic steps: the detail lines\<close>

text \<open>
  A \<^verbatim>\<open>CLICK x y\<close> line is executed on the pointer directly. Everything it raises is
  caught and the loop goes on to the next line; the value is whether the line set
  \<^verbatim>\<open>step_succeeded\<close>.
\<close>

definition click_target :: "string \<Rightarrow> (int \<times> int) option" where
  "click_target detail =
     (let parts = py_split (py_upper detail) in
      if length parts \<ge> 3 then
        (case py_int (parts ! 1) of
           None \<Rightarrow> None
         | Some x \<Rightarrow> (case py_int (parts ! 2) of None \<Rightarrow> None | Some y \<Rightarrow> Some (x, y)))
      else None)"

definition direct_click ::
  "('w, 'img, 'f) env \<Rightarrow> string \<Rightarrow> ('w, 'img, 'f) agent \<Rightarrow> bool \<times> ('w, 'img, 'f) agent" where
  "direct_click env detail s =
     (case click_target detail of
        None \<Rightarrow> (False, s)
      | Some (x, y) \<Rightarrow>
         (case mouse_move_to env x y (world s) of
            (Inl e, w1) \<Rightarrow> (False, s\<lparr>world := w1\<rparr>)
          | (Inr moved, w1) \<Rightarrow>
             if \<not> moved then (False, s\<lparr>world := w1\<rparr>)
             else
               (case mouse_position env w1 of
                  (Inl e, w2) \<Rightarrow> (False, s\<lparr>world := w2\<rparr>)
                | (Inr (current_x, current_y), w2) \<Rightarrow>
                   (case mouse_click env (PInt current_x) (PInt current_y) w2 of
                      (Inl e, w3) \<Rightarrow> (False, s\<lparr>world := w3\<rparr>)
                    | (Inr success, w3) \<Rightarrow> (success, s\<lparr>world := w3\<rparr>)))))"

text \<open>
  One detail line. A \<^verbatim>\<open>WAIT\<close> line sleeps and counts as a success; the sleep stands
  outside every \<^verbatim>\<open>try\<close>, so what it raises leaves the loop. Any other line goes through
  the grammar and the dispatcher and is recorded in the context.
\<close>

definition run_detail ::
  "('w, 'img, 'f) env \<Rightarrow> string \<Rightarrow> ('w, 'img, 'f) agent \<Rightarrow> (exn + bool) \<times> ('w, 'img, 'f) agent" where
  "run_detail env detail s =
     (if starts_with ''WAIT'' (py_upper detail) then
        (case time_sleep env (parse_wait_duration (py_float env) detail) (world s) of
           (Inl e, w') \<Rightarrow> (Inl e, s\<lparr>world := w'\<rparr>)
         | (Inr _, w') \<Rightarrow> (Inr True, s\<lparr>world := w'\<rparr>))
      else if starts_with ''CLICK '' (py_upper detail) then
        (case direct_click env detail s of (success, s') \<Rightarrow> (Inr success, s'))
      else
        (let action = parse_action (py_float env) detail in
         case execute_action env action (world s) of
           (Inl e, w') \<Rightarrow> (Inl e, s\<lparr>world := w'\<rparr>)
         | (Inr (success, result), w') \<Rightarrow>
            (Inr success, add_action action success result (s\<lparr>world := w'\<rparr>))))"

text \<open>
  The loop over the detail lines; \<open>step_succeeded\<close> starts as \<open>False\<close> and is only ever
  set to \<open>True\<close>.
\<close>

fun run_details ::
  "('w, 'img, 'f) env \<Rightarrow> string list \<Rightarrow> bool \<Rightarrow> ('w, 'img, 'f) agent
     \<Rightarrow> (exn + bool) \<times> ('w, 'img, 'f) agent" where
  "run_details env [] step_succeeded s = (Inr step_succeeded, s)"
| "run_details env (detail # rest) step_succeeded s =
     (case run_detail env detail s of
        (Inl e, s') \<Rightarrow> (Inl e, s')
      | (Inr success, s') \<Rightarrow> run_details env rest (step_succeeded \<or> success) s')"

subsection \<open>Decision-driven steps\<close>

text \<open>
  Observe, decide, dispatch and record: the part of the step up to the test of
  \<^verbatim>\<open>success\<close>. The cache is invalidated first on every step but the first.
\<close>

definition attempt_step ::
  "('w, 'img, 'f) env \<Rightarrow> nat \<Rightarrow> step \<Rightarrow> ('w, 'img, 'f) agent
     \<Rightarrow> (exn + 'f action \<times> bool \<times> string \<times> 'img analysis) \<times> ('w, 'img, 'f) agent" where
  "attempt_step env idx step s =
     (let s1 = (if idx > 1 then clear_cache (BeforeStep idx) s else s) in
      case analyze_current_screen env False s1 of
        (Inl e, s2) \<Rightarrow> (Inl e, s2)
      | (Inr analysis, s2) \<Rightarrow>
         (let s3 = add_screen analysis s2 in
          case decide_next_action env (task_text s3) (description step) (raw_text analysis)
                 (world s3) of
            (Inl e, w4) \<Rightarrow> (Inl e, s3\<lparr>world := w4\<rparr>)
          | (Inr action, w4) \<Rightarrow>
             (case execute_action env action w4 of
                (Inl e, w5) \<Rightarrow> (Inl e, s3\<lparr>world := w5\<rparr>)
              | (Inr (success, result), w5) \<Rightarrow>
                 (Inr (action, success, result, analysis),
                  log_action action success result
                    (add_action action success result (s3\<lparr>world := w5\<rparr>))))))"

text \<open>What one iteration of the loop over the plan does with the loop.\<close>

datatype flow = Continue | Returned bool | Raised exn

text \<open>
  The failure branch: the advice is searched for \<^verbatim>\<open>RETRY\<close> in upper case. On a
  match the cursor of the context is set and the iteration ends with \<^verbatim>\<open>continue\<close>;
  otherwise the plan is aborted.
\<close>

definition recover ::
  "('w, 'img, 'f) env \<Rightarrow> nat \<Rightarrow> 'f action \<Rightarrow> 'img analysis \<Rightarrow> ('w, 'img, 'f) agent
     \<Rightarrow> flow \<times> ('w, 'img, 'f) agent" where
  "recover env idx action analysis s =
     (let s1 = emit (EvHandleError idx) s in
      case handle_error env (task_text s1) action (raw_text analysis) (world s1) of
        (Inl e, w') \<Rightarrow> (Raised e, s1\<lparr>world := w'\<rparr>)
      | (Inr error_handling_result, w') \<Rightarrow>
         if contains ''RETRY'' (py_upper error_handling_result) then
           (Continue, s1\<lparr>world := w', current_step_index := max 0 (int idx - 2)\<rparr>)
         else (Returned False, s1\<lparr>world := w'\<rparr>))"

definition decision_step ::
  "('w, 'img, 'f) env \<Rightarrow> nat \<Rightarrow> step \<Rightarrow> ('w, 'img, 'f) agent \<Rightarrow> flow \<times> ('w, 'img, 'f) agent" where
  "decision_step env idx step s =
     (case attempt_step env idx step s of
        (Inl e, s') \<Rightarrow> (Raised e, s')
      | (Inr (action, success, result, analysis), s') \<Rightarrow>
         if \<not> success then recover env idx action analysis s'
         else (Continue, clear_cache (AfterAction idx) s'))"

subsection \<open>The loop over the plan\<close>

text \<open>
  One iteration, for the step at position \<open>idx\<close> (from 1) of a plan of \<open>total_steps\<close> steps.
  The fixed half-second sleep that ends a successful decision-driven step is a pure delay
  and is left out.
\<close>

definition execute_step ::
  "('w, 'img, 'f) env \<Rightarrow> nat \<Rightarrow> nat \<Rightarrow> step \<Rightarrow> ('w, 'img, 'f) agent \<Rightarrow> flow \<times> ('w, 'img, 'f) agent" where
  "execute_step env total_steps idx step s =
     (let s1 = poll_owner env (emit (EvStep idx) s) in
      if \<not> is_running s1 \<or> is_paused s1 then (Returned False, s1)
      else if details step \<noteq> [] then
        (case run_details env (details step) False s1 of
           (Inl e, s2) \<Rightarrow> (Raised e, s2)
         | (Inr step_succeeded, s2) \<Rightarrow>
            if \<not> step_succeeded \<and> idx < total_steps then (Continue, s2)
            else if \<not> step_succeeded \<and> idx = total_steps then (Returned False, s2)
            else (Continue, s2))
      else decision_step env idx step s1)"

text \<open>
  \<^verbatim>\<open>for idx, step in enumerate(plan, start=1)\<close>: the iterator alone decides which step
  comes next. \<open>Inr True\<close> is the \<^verbatim>\<open>return True\<close> after the loop.
\<close>

fun execute_steps ::
  "('w, 'img, 'f) env \<Rightarrow> nat \<Rightarrow> nat \<Rightarrow> step list \<Rightarrow> ('w, 'img, 'f) agent
     \<Rightarrow> (exn + bool) \<times> ('w, 'img, 'f) agent" where
  "execute_steps env total_steps idx [] s = (Inr True, s)"
| "execute_steps env total_steps idx (step # rest) s =
     (case execute_step env total_steps idx step s of
        (Continue, s') \<Rightarrow> execute_steps env total_steps (Suc idx) rest s'
      | (Returned b, s') \<Rightarrow> (Inr b, s')
      | (Raised e, s') \<Rightarrow> (Inl e, s'))"

definition execute_plan ::
  "('w, 'img, 'f) env \<Rightarrow> ('w, 'img, 'f) agent \<Rightarrow> (exn + bool) \<times> ('w, 'img, 'f) agent" where
  "execute_plan env s =
     (let plan = current_plan s in
      if plan = [] then (Inr False, s) else execute_steps env (length plan) 1 plan s)"

section \<open>Task processing: \<^verbatim>\<open>_process_current_task\<close> and \<^verbatim>\<open>_agent_loop\<close>\<close>

text \<open>Every exception is caught here and turned into \<^verbatim>\<open>return False\<close>.\<close>

definition process_current_task ::
  "('w, 'img, 'f) env \<Rightarrow> ('w, 'img, 'f) agent \<Rightarrow> bool \<times> ('w, 'img, 'f) agent" where
  "process_current_task env s =
     (case analyze_current_screen env True (clear_cache BeforePlanning s) of
        (Inl e, s2) \<Rightarrow> (False, s2)
      | (Inr analysis, s2) \<Rightarrow>
         (let s3 = emit EvPlanner (add_screen analysis s2) in
          case plan_task env (task_text s3) (raw_text analysis) (world s3) of
            (Inl e, w4) \<Rightarrow> (False, s3\<lparr>world := w4\<rparr>)
          | (Inr plan, w4) \<Rightarrow>
             if plan = [] then (False, s3\<lparr>world := w4\<rparr>)
             else
               (case execute_plan env (set_plan plan (s3\<lparr>world := w4\<rparr>)) of
                  (Inl e, s5) \<Rightarrow> (False, s5)
                | (Inr success, s5) \<Rightarrow> (success, s5))))"

text \<open>
  The agent loop, for at most \<open>fuel\<close> iterations (the loop of the program runs until the
  agent is stopped; its sleeps are left out).
\<close>

definition run_task :: "('w, 'img, 'f) env \<Rightarrow> string \<Rightarrow> ('w, 'img, 'f) agent \<Rightarrow> ('w, 'img, 'f) agent" where
  "run_task env t s =
     (case process_current_task env (s\<lparr>current_task := Some t\<rparr>) of
        (success, s1) \<Rightarrow>
          (let s2 = log_task_completion success (s1\<lparr>current_task := None\<rparr>)
           in if success then set_task_completed s2 else set_task_failed s2))"

fun agent_loop :: "('w, 'img, 'f) env \<Rightarrow> nat \<Rightarrow> ('w, 'img, 'f) agent \<Rightarrow> ('w, 'img, 'f) agent" where
  "agent_loop env 0 s = s"
| "agent_loop env (Suc fuel) s =
     (let s1 = poll_owner env s in
      if \<not> is_running s1 then s1
      else if is_paused s1 then agent_loop env fuel s1
      else
        (case task_queue s1 of
           [] \<Rightarrow> agent_loop env fuel s1
         | t # queue \<Rightarrow> agent_loop env fuel (run_task env t (s1\<lparr>task_queue := queue\<rparr>))))"

subsection \<open>Construction, \<^verbatim>\<open>start\<close> and \<^verbatim>\<open>execute_task\<close>\<close>

definition new_agent :: "'w \<Rightarrow> ('w, 'img, 'f) agent" where
  "new_agent w =
     \<lparr>world = w, cached_analysis = None, is_running = False, is_paused = False,
      task_queue = [], current_task = None, task_status = ''idle'', current_plan = [],
      current_step_index = - 1, screen_history = [], action_history = [],
      session_log = [LogSessionStart], trace = []\<rparr>"

definition start :: "('w, 'img, 'f) agent \<Rightarrow> ('w, 'img, 'f) agent" where
  "start s = (if is_running s then s else s\<lparr>is_running := True, is_paused := False\<rparr>)"

definition execute_task :: "string \<Rightarrow> ('w, 'img, 'f) agent \<Rightarrow> ('w, 'img, 'f) agent" where
  "execute_task task_description s =
     (if \<not> is_running s then s
      else s\<lparr>task_queue := task_queue s @ [task_description],
             task_status := ''in_progress'', current_plan := [], current_step_index := - 1,
             screen_history := [], action_history := [],
             session_log := session_log s @ [LogTaskStart task_description]\<rparr>)"

section \<open>Notions the properties are stated with\<close>

text \<open>The action types the dispatcher has a branch for.\<close>

definition known_types :: "string list" where
  "known_types =
     [''click'', ''type'', ''press'', ''wait'', ''scroll'', ''double_click'', ''right_click'',
      ''drag'', ''run'', ''launch'', ''launch_chrome'', ''screenshot'']"

text \<open>
  The outcomes of the detail lines of a deterministic step, one for each line executed,
  in order, each line starting in the state the line before left.
\<close>

fun detail_results :: "('w, 'img, 'f) env \<Rightarrow> string list \<Rightarrow> ('w, 'img, 'f) agent \<Rightarrow> bool list" where
  "detail_results env [] s = []"
| "detail_results env (detail # rest) s =
     (case run_detail env detail s of
        (Inl e, s') \<Rightarrow> []
      | (Inr success, s') \<Rightarrow> success # detail_results env rest s')"

text \<open>Counting in the trace.\<close>

fun is_step_start :: "event \<Rightarrow> bool" where
  "is_step_start (EvStep _) = True"
| "is_step_start _ = False"

fun is_invalidate_before_step :: "event \<Rightarrow> bool" where
  "is_invalidate_before_step (EvInvalidate (BeforeStep _)) = True"
| "is_invalidate_before_step _ = False"

fun is_invalidate_after_action :: "event \<Rightarrow> bool" where
  "is_invalidate_after_action (EvInvalidate (AfterAction _)) = True"
| "is_invalidate_after_action _ = False"

definition steps_started :: "event list \<Rightarrow> nat" where
  "steps_started tr = length (filter is_step_start tr)"

definition invalidations_before_steps :: "event list \<Rightarrow> nat" where
  "invalidations_before_steps tr = length (filter is_invalidate_before_step tr)"

definition invalidations_after_actions :: "event list \<Rightarrow> nat" where
  "invalidations_after_actions tr = length (filter is_invalidate_after_action tr)"

definition captures :: "event list \<Rightarrow> nat" where
  "captures tr = count_list tr EvCapture"

section \<open>Concrete collaborators\<close>

text \<open>
  A small world to run the definitions in. The world is the number of times the agent has
  read its flags. Floats are the integers, written as Python writes integral floats. Every
  controller call returns and reports success, the screen always reads \<open>''screen''\<close>, the
  language model answers every decision prompt with the step's own description and every
  recovery prompt with \<open>''abort''\<close>, the planner makes one decision-driven step of every
  line of the task, and the owner leaves the agent alone.
\<close>

definition plan_of_lines :: "string list \<Rightarrow> step list" where
  "plan_of_lines ls =
     map (\<lambda>(i, l). \<lparr>number = int i + 1, description = l, details = []\<rparr>) (enumerate 0 ls)"

definition lines_of :: "string \<Rightarrow> string list" where
  "lines_of t = filter (\<lambda>l. l \<noteq> []) (split_on CHR '';'' [] t)"

definition quiet_env :: "(nat, unit, int) env" where
  "quiet_env =
     \<lparr>py_float = py_int,
      float_str = (\<lambda>f. str_of_int f @ ''.0''),
      mouse_move_to = (\<lambda>x y w. (Inr True, w)),
      mouse_position = (\<lambda>w. (Inr (0, 0), w)),
      mouse_click = (\<lambda>x y w. (Inr True, w)),
      mouse_double_click = (\<lambda>x y w. (Inr (), w)),
      mouse_right_click = (\<lambda>x y w. (Inr (), w)),
      mouse_drag_to = (\<lambda>x1 y1 x2 y2 w. (Inr (), w)),
      mouse_scroll = (\<lambda>d c w. (Inr (), w)),
      keyboard_type_text = (\<lambda>t w. (Inr (), w)),
      keyboard_hotkey = (\<lambda>ks w. (Inr (), w)),
      keyboard_press_key = (\<lambda>k w. (Inr (), w)),
      time_sleep = (\<lambda>d w. (Inr (), w)),
      subprocess_popen = (\<lambda>c w. (Inr (), w)),
      launch_app = (\<lambda>a w. (Inr True, w)),
      launch_chrome = (\<lambda>w. (Inr True, w)),
      save_screenshot = (\<lambda>w. (Inr ''screenshots/screenshot.png'', w)),
      capture_full_screen = (\<lambda>w. (Inr (), w)),
      extract_text = (\<lambda>img. Inr ''screen''),
      extract_text_with_positions = (\<lambda>img. Inr []),
      detect_buttons = (\<lambda>img. Inr []),
      generate_action = (\<lambda>task_description current_step screen w. (Inr current_step, w)),
      generate_recovery = (\<lambda>task_description failed_action screen w. (Inr ''abort'', w)),
      plan_task = (\<lambda>task_description screen w. (Inr (plan_of_lines (lines_of task_description)), w)),
      owner_calls = (\<lambda>w. ([], Suc w))\<rparr>"

text \<open>The pointer reports failure on every click.\<close>

definition failing_click_env :: "(nat, unit, int) env" where
  "failing_click_env = quiet_env\<lparr>mouse_click := (\<lambda>x y w. (Inr False, w))\<rparr>"

text \<open>The pointer raises on every click, and the launcher reports failure.\<close>

definition raising_env :: "(nat, unit, int) env" where
  "raising_env =
     quiet_env\<lparr>mouse_click := (\<lambda>x y w. (Inl ''display lost'', w)),
               launch_app := (\<lambda>a w. (Inr False, w))\<rparr>"

text \<open>The language model answers every recovery prompt with advice to retry.\<close>

definition retry_env :: "(nat, unit, int) env" where
  "retry_env =
     quiet_env\<lparr>generate_recovery :=
       (\<lambda>task_description failed_action screen w. (Inr ''Please retry the step.'', w))\<rparr>"

text \<open>
  The planner makes one deterministic step of every line of the task, the line being the
  step's only detail; the owner calls \<^verbatim>\<open>pause\<close> while the first step of the plan runs
  and \<^verbatim>\<open>resume\<close> after the plan has been left.
\<close>

definition deterministic_plan_of_lines :: "string list \<Rightarrow> step list" where
  "deterministic_plan_of_lines ls =
     map (\<lambda>(i, l). \<lparr>number = int i + 1, description = l, details = [l]\<rparr>) (enumerate 0 ls)"

definition pausing_env :: "(nat, unit, int) env" where
  "pausing_env =
     quiet_env\<lparr>plan_task :=
       (\<lambda>task_description screen w.
          (Inr (deterministic_plan_of_lines (lines_of task_description)), w)),
      owner_calls :=
       (\<lambda>w. (if w = 2 then [Pause] else if w = 3 then [Resume] else [], Suc w))\<rparr>"

text \<open>
  \<^verbatim>\<open>time.sleep\<close> as the interpreter has it on numbers: a negative duration raises
  \<^verbatim>\<open>ValueError\<close>.
\<close>

definition strict_sleep_env :: "(nat, unit, int) env" where
  "strict_sleep_env =
     quiet_env\<lparr>time_sleep :=
       (\<lambda>d w. case d of
                 PFloat f \<Rightarrow>
                   if f < 0 then (Inl ''sleep length must be non-negative'', w) else (Inr (), w)
               | PInt i \<Rightarrow>
                   if i < 0 then (Inl ''sleep length must be non-negative'', w) else (Inr (), w)
               | _ \<Rightarrow> (Inr (), w))\<rparr>"

text \<open>
  A world that counts the captures made: the world is the number of screenshots taken so
  far, and the screenshot taken is that number.
\<close>

definition counting_env :: "(nat, nat, int) env" where
  "counting_env =
     \<lparr>py_float = py_int,
      float_str = (\<lambda>f. str_of_int f @ ''.0''),
      mouse_move_to = (\<lambda>x y w. (Inr True, w)),
      mouse_position = (\<lambda>w. (Inr (0, 0), w)),
      mouse_click = (\<lambda>x y w. (Inr True, w)),
      mouse_double_click = (\<lambda>x y w. (Inr (), w)),
      mouse_right_click = (\<lambda>x y w. (Inr (), w)),
      mouse_drag_to = (\<lambda>x1 y1 x2 y2 w. (Inr (), w)),
      mouse_scroll = (\<lambda>d c w. (Inr (), w)),
      keyboard_type_text = (\<lambda>t w. (Inr (), w)),
      keyboard_hotkey = (\<lambda>ks w. (Inr (), w)),
      keyboard_press_key = (\<lambda>k w. (Inr (), w)),
      time_sleep = (\<lambda>d w. (Inr (), w)),
      subprocess_popen = (\<lambda>c w. (Inr (), w)),
      launch_app = (\<lambda>a w. (Inr True, w)),
      launch_chrome = (\<lambda>w. (Inr True, w)),
      save_screenshot = (\<lambda>w. (Inr ''screenshots/screenshot.png'', w)),
      capture_full_screen = (\<lambda>w. (Inr w, Suc w)),
      extract_text = (\<lambda>img. Inr (''screen '' @ str_of_nat img)),
      extract_text_with_positions = (\<lambda>img. Inr []),
      detect_buttons = (\<lambda>img. Inr []),
      generate_action = (\<lambda>task_description current_step screen w. (Inr current_step, w)),
      generate_recovery = (\<lambda>task_description failed_action screen w. (Inr ''abort'', w)),
      plan_task = (\<lambda>task_description screen w. (Inr [], w)),
      owner_calls = (\<lambda>w. ([], w))\<rparr>"

definition counting_agent :: "(nat, nat, int) agent" where
  "counting_agent = start (new_agent 0)"

text \<open>The planner returns the empty plan.\<close>

definition no_plan_env :: "(nat, unit, int) env" where
  "no_plan_env = quiet_env\<lparr>plan_task := (\<lambda>task_description screen w. (Inr [], w))\<rparr>"

definition ready_agent :: "(nat, unit, int) agent" where
  "ready_agent = (start (new_agent 0))\<lparr>current_task := Some ''demo''\<rparr>"

text \<open>The agent after the screen has been analysed for planning.\<close>

definition observed_agent :: "(nat, unit, int) agent" where
  "observed_agent =
     snd (analyze_current_screen quiet_env True (clear_cache BeforePlanning ready_agent))"

text \<open>A plan of three decision-driven steps, each of which dispatches successfully.\<close>

definition good_steps :: "step list" where
  "good_steps = plan_of_lines [''PRESS a'', ''WAIT 1'', ''PRESS c'']"

text \<open>
  A plan of three decision-driven steps whose second step yields an action of unknown
  type, which the dispatcher reports as a failure.
\<close>

definition three_steps :: "step list" where
  "three_steps = plan_of_lines [''PRESS a'', ''FLY'', ''PRESS c'']"

text \<open>A started agent with one task submitted; the planner makes two steps of it.\<close>

definition submitted_agent :: "(nat, unit, int) agent" where
  "submitted_agent = execute_task ''PRESS a;PRESS b'' (start (new_agent 0))"

text \<open>
  The exception the template call of \<^verbatim>\<open>decide_next_action\<close> raises (its text as the
  interpreter words it for a method named by its class).
\<close>

definition unexpected_current_step :: exn where
  "unexpected_current_step =
     ''PromptTemplates.get_action_decision_prompt() got an unexpected keyword argument ''
       @ [CHR 0x27] @ ''current_step'' @ [CHR 0x27]"

text \<open>Deterministic steps whose \<^verbatim>\<open>WAIT\<close> line has a negative duration.\<close>

definition negative_wait_steps :: "step list" where
  "negative_wait_steps =
     [\<lparr>number = 1, description = ''wait'', details = [''WAIT -1'']\<rparr>,
      \<lparr>number = 2, description = ''press'', details = [''PRESS a'']\<rparr>]"

definition click_then_negative_wait_steps :: "step list" where
  "click_then_negative_wait_steps =
     [\<lparr>number = 1, description = ''click and wait'', details = [''CLICK 10 10'', ''WAIT -1'']\<rparr>,
      \<lparr>number = 2, description = ''press'', details = [''PRESS a'']\<rparr>]"

text \<open>
  The states of the run in which the owner pauses the agent during step 1 of a plan of
  two deterministic steps: when the task has been taken from the queue, when the plan has
  been set, and when step 1 has been executed.
\<close>

definition taken_agent :: "(nat, unit, int) agent" where
  "taken_agent =
     (poll_owner pausing_env submitted_agent)
       \<lparr>task_queue := [], current_task := Some ''PRESS a;PRESS b''\<rparr>"

definition screen_seen :: "unit analysis" where
  "screen_seen = \<lparr>text_elements = [], ui_buttons = [], raw_text = ''screen'', screenshot = ()\<rparr>"

definition two_deterministic_steps :: "step list" where
  "two_deterministic_steps = deterministic_plan_of_lines [''PRESS a'', ''PRESS b'']"

definition planned_agent :: "(nat, unit, int) agent" where
  "planned_agent =
     set_plan two_deterministic_steps
       ((emit EvPlanner
           (add_screen screen_seen
              (snd (analyze_current_screen pausing_env True
                      (clear_cache BeforePlanning taken_agent)))))\<lparr>world := 1\<rparr>)"

definition after_step_1 :: "(nat, unit, int) agent" where
  "after_step_1 = snd (execute_steps pausing_env 2 1 [hd two_deterministic_steps] planned_agent)"

section \<open>Properties\<close>

subsection \<open>Evaluation rules\<close>

lemmas string_eval = py_upper_def py_lower_def upper_char_def lower_char_def is_lower_def
  is_upper_def lowers_def uppers_def digits_def py_strip_def is_space_def starts_with_def
  ends_with_def quoted_def unquote_def py_split_def is_digit_def digit_val_def parse_nat_def
  py_int_def Let_def

lemmas env_eval = quiet_env_def failing_click_env_def raising_env_def retry_env_def
  pausing_env_def no_plan_env_def ready_agent_def new_agent_def start_def execute_task_def
  plan_of_lines_def lines_of_def enumerate_eq_zip upt_rec observed_agent_def good_steps_def
  three_steps_def submitted_agent_def deterministic_plan_of_lines_def strict_sleep_env_def
  counting_env_def counting_agent_def unexpected_current_step_def negative_wait_steps_def
  click_then_negative_wait_steps_def taken_agent_def screen_seen_def
  two_deterministic_steps_def planned_agent_def after_step_1_def

lemmas dispatch_eval = execute_action_def dispatch_def and_then_true_def get_def get_or_def
  py_str_def str_of_int_def

lemmas loop_eval = execute_plan_def execute_step_def decision_step_def attempt_step_def
  recover_def handle_error_def decide_next_action_def analyze_current_screen_def
  analyse_image_def clear_cache_def emit_def poll_owner_def apply_call_def pause_def
  resume_def stop_def add_screen_def add_action_def log_action_def deque_append_def
  max_history_def task_text_def set_plan_def parse_action_def unknown_action_def
  check_keywords_def action_decision_prompt_params_def error_handling_prompt_params_def

subsection \<open>The action grammar\<close>

lemma lower_char_not_upper: "\<not> is_upper (lower_char c)"
  by (auto simp: lower_char_def is_upper_def uppers_def lowers_def)

lemma lower_char_idem: "lower_char (lower_char c) = lower_char c"
  by (auto simp: lower_char_def uppers_def lowers_def)

lemma py_lower_idem: "py_lower (py_lower s) = py_lower s"
  by (simp add: py_lower_def lower_char_idem)

lemma py_lower_no_upper: "c \<in> set (py_lower s) \<Longrightarrow> \<not> is_upper c"
  by (auto simp: py_lower_def lower_char_not_upper)

lemma press_excludes_earlier_keywords:
  "starts_with ''PRESS'' a \<Longrightarrow> \<not> starts_with ''CLICK'' a \<and> \<not> starts_with ''TYPE'' a"
  by (cases a) (auto simp: starts_with_def)

lemma parse_press:
  assumes "starts_with ''PRESS'' (py_upper (py_strip t))"
  shows "parse_action flt t =
    [(''type'', PStr ''press''),
     (''key'', PStr (let key_match = py_strip (drop 5 (py_upper (py_strip t)))
                     in if quoted key_match then py_lower (unquote key_match)
                        else py_lower key_match))]"
  using assms press_excludes_earlier_keywords[OF assms] by (simp add: parse_action_def Let_def)

lemma parse_press_iff:
  "get (parse_action flt t) ''type'' = PStr ''press''
     \<longleftrightarrow> starts_with ''PRESS'' (py_upper (py_strip t))"
  by (auto simp: parse_action_def Let_def get_def unknown_action_def
        press_excludes_earlier_keywords split: option.splits)

text \<open>
  C3. The \<^verbatim>\<open>TYPE\<close> keyword is recognised in any letter case, but the text of the
  action is cut out of the upper-cased line, not out of the line as it came: the line
  \<^verbatim>\<open>TYPE "hello world"\<close> parses to the text \<^verbatim>\<open>HELLO WORLD\<close>, and so does the same line
  with the keyword in lower case. The letter case of the text is lost.
\<close>

theorem type_text_is_upper_cased:
  \<open>parse_action flt ''TYPE "hello world"''
     = [(''type'', PStr ''type''), (''text'', PStr ''HELLO WORLD'')]
   \<and> parse_action flt ''type hello world''
     = [(''type'', PStr ''type''), (''text'', PStr ''HELLO WORLD'')]\<close>
  by (simp add: parse_action_def string_eval)

text \<open>
  C10. Whenever a line parses to a \<^verbatim>\<open>press\<close> action, the action is the pair of the
  type and a key, and the key is in lower case throughout: lower-casing it changes
  nothing and no character of it is an upper-case letter, whether the key was quoted or
  bare.
\<close>

theorem press_key_is_lower_case:
  assumes "get (parse_action flt t) ''type'' = PStr ''press''"
  shows "\<exists>k. parse_action flt t = [(''type'', PStr ''press''), (''key'', PStr k)]
           \<and> py_lower k = k \<and> (\<forall>c \<in> set k. \<not> is_upper c)"
proof -
  from assms have p: "starts_with ''PRESS'' (py_upper (py_strip t))"
    by (simp add: parse_press_iff)
  show ?thesis
    unfolding parse_press[OF p]
    by (auto simp: Let_def py_lower_idem dest: py_lower_no_upper)
qed

theorem press_key_is_lower_case_witness:
  \<open>get (parse_action py_int ''Press "Ctrl+A"'') ''type'' = PStr ''press''
   \<and> parse_action py_int ''Press "Ctrl+A"'' = [(''type'', PStr ''press''), (''key'', PStr ''ctrl+a'')]
   \<and> parse_action py_int ''press  ENTER '' = [(''type'', PStr ''press''), (''key'', PStr ''enter'')]
   \<and> (\<exists>k. parse_action py_int ''Press "Ctrl+A"'' = [(''type'', PStr ''press''), (''key'', PStr k)]
           \<and> py_lower k = k \<and> (\<forall>c \<in> set k. \<not> is_upper c))\<close>
proof -
  have h: \<open>get (parse_action py_int ''Press "Ctrl+A"'') ''type'' = PStr ''press''\<close>
    by (simp add: parse_action_def get_def string_eval)
  have e1: \<open>parse_action py_int ''Press "Ctrl+A"''
              = [(''type'', PStr ''press''), (''key'', PStr ''ctrl+a'')]\<close>
    by (simp add: parse_action_def string_eval)
  have e2: \<open>parse_action py_int ''press  ENTER ''
              = [(''type'', PStr ''press''), (''key'', PStr ''enter'')]\<close>
    by (simp add: parse_action_def string_eval)
  from press_key_is_lower_case[OF h] h e1 e2 show ?thesis by blast
qed

subsection \<open>The action dispatcher\<close>

lemma execute_action_returns:
  assumes "get_or action ''type'' (PStr []) = PStr t"
  shows "\<exists>success message w'. execute_action env action w = (Inr (success, message), w')"
  using assms by (auto simp: execute_action_def split: prod.splits sum.splits)

lemma dispatch_unknown:
  assumes "ty \<notin> set known_types"
  shows "dispatch env ty action w = (Inr (False, ''Unknown action type: '' @ ty), w)"
  using assms by (simp add: dispatch_def known_types_def)

text \<open>
  C6. For every action whose type is a string (or is absent, which reads as the empty
  string), the dispatcher returns a pair and never raises. It branches on the lower-cased
  type alone: a type it has no branch for gives \<open>False\<close> with a message that names the
  type, and leaves the world untouched; and whatever the branch of a known type raises is
  caught and returned as \<open>False\<close> with the text of the exception.
\<close>

theorem execute_action_never_raises:
  assumes "get_or action ''type'' (PStr []) = PStr t"
  shows "(\<exists>success message w'. execute_action env action w = (Inr (success, message), w'))
       \<and> (py_lower t \<notin> set known_types \<longrightarrow>
            execute_action env action w
              = (Inr (False, ''Unknown action type: '' @ py_lower t), w))
       \<and> (\<forall>e w'. dispatch env (py_lower t) action w = (Inl e, w') \<longrightarrow>
            execute_action env action w = (Inr (False, ''Error: '' @ e), w'))"
  using assms execute_action_returns[OF assms, of env w]
  by (auto simp: execute_action_def dispatch_unknown)

theorem execute_action_never_raises_witness:
  "get_or [(''type'', PStr ''Click''), (''x'', PInt 10), (''y'', PInt 20)] ''type'' (PStr [])
     = (PStr ''Click'' :: int pyval)
   \<and> dispatch raising_env ''click'' [(''type'', PStr ''Click''), (''x'', PInt 10), (''y'', PInt 20)] 0
     = (Inl ''display lost'', 0)
   \<and> execute_action raising_env [(''type'', PStr ''Click''), (''x'', PInt 10), (''y'', PInt 20)] 0
     = (Inr (False, ''Error: display lost''), 0)
   \<and> ''fly'' \<notin> set known_types
   \<and> execute_action raising_env [(''type'', PStr ''FLY'')] 0
     = (Inr (False, ''Unknown action type: fly''), 0)"
proof -
  let ?a = "[(''type'', PStr ''Click''), (''x'', PInt 10), (''y'', PInt 20)] :: int action"
  let ?b = "[(''type'', PStr ''FLY'')] :: int action"
  have ta: "get_or ?a ''type'' (PStr []) = PStr ''Click''"
    by (simp add: get_or_def)
  have tb: "get_or ?b ''type'' (PStr []) = PStr ''FLY''"
    by (simp add: get_or_def)
  have la: "py_lower ''Click'' = ''click''" and lb: "py_lower ''FLY'' = ''fly''"
    by (simp_all add: string_eval)
  have d: "dispatch raising_env ''click'' ?a 0 = (Inl ''display lost'', 0)"
    by (simp add: dispatch_def and_then_true_def get_def env_eval)
  have u: "''fly'' \<notin> set known_types"
    by (simp add: known_types_def)
  from execute_action_never_raises[OF ta, of raising_env 0] d la
  have ra: "execute_action raising_env ?a 0 = (Inr (False, ''Error: display lost''), 0)"
    by simp
  from execute_action_never_raises[OF tb, of raising_env 0] u lb
  have rb: "execute_action raising_env ?b 0 = (Inr (False, ''Unknown action type: fly''), 0)"
    by simp
  from ta d ra u rb show ?thesis by simp
qed

lemma execute_action_of_dispatch:
  assumes "get_or a ''type'' (PStr []) = PStr t"
  shows "execute_action env a w =
     (case dispatch env (py_lower t) a w of
        (Inl e, w') \<Rightarrow> (Inr (False, ''Error: '' @ e), w')
      | (Inr r, w') \<Rightarrow> (Inr r, w'))"
  using assms by (simp add: execute_action_def)

lemma and_then_true_Inr:
  "r = (Inr v, w') \<Longrightarrow> and_then_true r msg = (Inr (True, msg), w')"
  by (simp add: and_then_true_def)

lemma and_then_true_not_false:
  "and_then_true r msg \<noteq> (Inr (False, m), w')"
  by (auto simp: and_then_true_def split: prod.splits sum.splits)

lemma dispatch_input_actions_not_false:
  assumes "ty \<in> {''click'', ''type'', ''press'', ''wait'', ''scroll''}"
  shows "dispatch env ty a w \<noteq> (Inr (False, m), w')"
proof -
  consider "ty = ''click''" | "ty = ''type''" | "ty = ''press''" | "ty = ''wait''"
    | "ty = ''scroll''"
    using assms by blast
  then show ?thesis
  proof cases
    case 1
    then show ?thesis by (simp add: dispatch_def Let_def and_then_true_not_false)
  next
    case 2
    then show ?thesis
      by (auto simp: dispatch_def Let_def split: prod.splits sum.splits pyval.splits)
  next
    case 3
    then show ?thesis
      by (auto simp: dispatch_def Let_def and_then_true_not_false split: pyval.splits)
  next
    case 4
    then show ?thesis by (simp add: dispatch_def Let_def and_then_true_not_false)
  next
    case 5
    then show ?thesis by (simp add: dispatch_def Let_def and_then_true_not_false)
  qed
qed

text \<open>
  C9. For the action types click, type, press, wait and scroll the dispatcher returns
  success as soon as the controller call returns, whatever the call returned (for a click,
  the pointer's own verdict \<open>b\<close> is thrown away); for these types a result of
  \<open>False\<close> only ever comes from an exception caught in the branch. For launch and
  launch_chrome the success flag is the value \<open>b\<close> the launcher returned. (The text of a
  type action and the key of a press action are strings, as the grammar produces them.)
\<close>

theorem controller_result_is_discarded:
  assumes "get_or a ''type'' (PStr []) = PStr t"
  shows
   "(py_lower t = ''click'' \<longrightarrow>
       (\<forall>b w'. mouse_click env (get a ''x'') (get a ''y'') w = (Inr b, w') \<longrightarrow>
          (\<exists>m. execute_action env a w = (Inr (True, m), w'))))
  \<and> (py_lower t = ''type'' \<longrightarrow>
       (\<forall>tx u w'. get_or a ''text'' (PStr []) = PStr tx \<longrightarrow>
          keyboard_type_text env (PStr tx) w = (Inr u, w') \<longrightarrow>
          (\<exists>m. execute_action env a w = (Inr (True, m), w'))))
  \<and> (py_lower t = ''press'' \<longrightarrow>
       (\<forall>k u w'. get_or a ''key'' (PStr []) = PStr k \<longrightarrow>
          (if CHR ''+'' \<in> set k
           then keyboard_hotkey env (map py_strip (split_on CHR ''+'' [] k)) w
           else keyboard_press_key env k w) = (Inr u, w') \<longrightarrow>
          (\<exists>m. execute_action env a w = (Inr (True, m), w'))))
  \<and> (py_lower t = ''wait'' \<longrightarrow>
       (\<forall>u w'. time_sleep env (get_or a ''duration'' (PInt 2)) w = (Inr u, w') \<longrightarrow>
          (\<exists>m. execute_action env a w = (Inr (True, m), w'))))
  \<and> (py_lower t = ''scroll'' \<longrightarrow>
       (\<forall>u w'. mouse_scroll env (get_or a ''direction'' (PStr ''down''))
                  (get_or a ''clicks'' (PInt 3)) w = (Inr u, w') \<longrightarrow>
          (\<exists>m. execute_action env a w = (Inr (True, m), w'))))
  \<and> (py_lower t \<in> {''click'', ''type'', ''press'', ''wait'', ''scroll''} \<longrightarrow>
       (\<forall>m w'. execute_action env a w = (Inr (False, m), w') \<longrightarrow>
          (\<exists>e. dispatch env (py_lower t) a w = (Inl e, w') \<and> m = ''Error: '' @ e)))
  \<and> (py_lower t = ''launch'' \<longrightarrow>
       (\<forall>b w'. launch_app env (get_or a ''app'' (PStr [])) w = (Inr b, w') \<longrightarrow>
          (\<exists>m. execute_action env a w = (Inr (b, m), w'))))
  \<and> (py_lower t = ''launch_chrome'' \<longrightarrow>
       (\<forall>b w'. launch_chrome env w = (Inr b, w') \<longrightarrow>
          (\<exists>m. execute_action env a w = (Inr (b, m), w'))))"
proof (intro conjI impI allI)
  fix b w' assume "py_lower t = ''click''" "mouse_click env (get a ''x'') (get a ''y'') w = (Inr b, w')"
  then show "\<exists>m. execute_action env a w = (Inr (True, m), w')"
    by (simp add: execute_action_of_dispatch[OF assms] dispatch_def Let_def and_then_true_def)
next
  fix tx u w' assume "py_lower t = ''type''" "get_or a ''text'' (PStr []) = PStr tx"
    "keyboard_type_text env (PStr tx) w = (Inr u, w')"
  then show "\<exists>m. execute_action env a w = (Inr (True, m), w')"
    by (simp add: execute_action_of_dispatch[OF assms] dispatch_def Let_def)
next
  fix k u w' assume "py_lower t = ''press''" "get_or a ''key'' (PStr []) = PStr k"
    "(if CHR ''+'' \<in> set k
           then keyboard_hotkey env (map py_strip (split_on CHR ''+'' [] k)) w
           else keyboard_press_key env k w) = (Inr u, w')"
  then show "\<exists>m. execute_action env a w = (Inr (True, m), w')"
    by (simp add: execute_action_of_dispatch[OF assms] dispatch_def Let_def and_then_true_def
             split: if_splits)
next
  fix u w' assume "py_lower t = ''wait''"
    "time_sleep env (get_or a ''duration'' (PInt 2)) w = (Inr u, w')"
  then show "\<exists>m. execute_action env a w = (Inr (True, m), w')"
    by (simp add: execute_action_of_dispatch[OF assms] dispatch_def Let_def and_then_true_def)
next
  fix u w' assume "py_lower t = ''scroll''"
    "mouse_scroll env (get_or a ''direction'' (PStr ''down''))
                  (get_or a ''clicks'' (PInt 3)) w = (Inr u, w')"
  then show "\<exists>m. execute_action env a w = (Inr (True, m), w')"
    by (simp add: execute_action_of_dispatch[OF assms] dispatch_def Let_def and_then_true_def)
next
  fix m w' assume ty: "py_lower t \<in> {''click'', ''type'', ''press'', ''wait'', ''scroll''}"
    and f: "execute_action env a w = (Inr (False, m), w')"
  from f dispatch_input_actions_not_false[OF ty, of env a w]
  show "\<exists>e. dispatch env (py_lower t) a w = (Inl e, w') \<and> m = ''Error: '' @ e"
    by (auto simp: execute_action_of_dispatch[OF assms] split: prod.splits sum.splits)
next
  fix b w' assume "py_lower t = ''launch''"
    "launch_app env (get_or a ''app'' (PStr [])) w = (Inr b, w')"
  then show "\<exists>m. execute_action env a w = (Inr (b, m), w')"
    by (simp add: execute_action_of_dispatch[OF assms] dispatch_def Let_def)
next
  fix b w' assume "py_lower t = ''launch_chrome''" "launch_chrome env w = (Inr b, w')"
  then show "\<exists>m. execute_action env a w = (Inr (b, m), w')"
    by (simp add: execute_action_of_dispatch[OF assms] dispatch_def Let_def)
qed

theorem controller_result_is_discarded_witness:
  "get_or [(''type'', PStr ''click''), (''x'', PInt 10), (''y'', PInt 20)] ''type'' (PStr [])
     = (PStr ''click'' :: int pyval)
   \<and> mouse_click failing_click_env (PInt 10) (PInt 20) 0 = (Inr False, 0)
   \<and> (\<exists>m. execute_action failing_click_env
              [(''type'', PStr ''click''), (''x'', PInt 10), (''y'', PInt 20)] 0
            = (Inr (True, m), 0))
   \<and> launch_app raising_env (PStr ''gedit'') 0 = (Inr False, 0)
   \<and> (\<exists>m. execute_action raising_env [(''type'', PStr ''launch''), (''app'', PStr ''gedit'')] 0
            = (Inr (False, m), 0))"
proof -
  let ?a = "[(''type'', PStr ''click''), (''x'', PInt 10), (''y'', PInt 20)] :: int action"
  let ?b = "[(''type'', PStr ''launch''), (''app'', PStr ''gedit'')] :: int action"
  have ta: "get_or ?a ''type'' (PStr []) = PStr ''click''"
    by (simp add: get_or_def)
  have tb: "get_or ?b ''type'' (PStr []) = PStr ''launch''"
    by (simp add: get_or_def)
  have la: "py_lower ''click'' = ''click''" and lb: "py_lower ''launch'' = ''launch''"
    by (simp_all add: string_eval)
  have c: "mouse_click failing_click_env (PInt 10) (PInt 20) 0 = (Inr False, 0)"
    by (simp add: env_eval)
  have c': "mouse_click failing_click_env (get ?a ''x'') (get ?a ''y'') 0 = (Inr False, 0)"
    by (simp add: env_eval)
  have l: "launch_app raising_env (PStr ''gedit'') 0 = (Inr False, 0)"
    by (simp add: env_eval)
  have l': "launch_app raising_env (get_or ?b ''app'' (PStr [])) 0 = (Inr False, 0)"
    by (simp add: env_eval)
  note A = controller_result_is_discarded[OF ta, of failing_click_env 0]
  note B = controller_result_is_discarded[OF tb, of raising_env 0]
  have ra: "\<exists>m. execute_action failing_click_env ?a 0 = (Inr (True, m), 0)"
    by (rule A[THEN conjunct1, THEN mp, OF la, THEN spec, THEN spec, THEN mp, OF c'])
  have rb: "\<exists>m. execute_action raising_env ?b 0 = (Inr (False, m), 0)"
    by (rule B[THEN conjunct2, THEN conjunct2, THEN conjunct2, THEN conjunct2,
          THEN conjunct2, THEN conjunct2, THEN conjunct1, THEN mp, OF lb, THEN spec,
          THEN spec, THEN mp, OF l'])
  from ta c ra l rb show ?thesis by simp
qed

subsection \<open>The perception cache\<close>

lemma captures_append: "captures (xs @ ys) = captures xs + captures ys"
  by (induction xs) (simp_all add: captures_def)

lemma analyze_cached:
  "cached_analysis s = Some obs \<Longrightarrow> analyze_current_screen env False s = (Inr obs, s)"
  by (simp add: analyze_current_screen_def)

lemma analyze_uncached:
  assumes "force_new \<or> cached_analysis s = None"
  shows "world (snd (analyze_current_screen env force_new s))
           = snd (capture_full_screen env (world s))"
    and "fst (analyze_current_screen env force_new s)
           = (case fst (capture_full_screen env (world s)) of
                Inl e \<Rightarrow> Inl e
              | Inr img \<Rightarrow> analyse_image env img)"
    and "cached_analysis (snd (analyze_current_screen env force_new s))
           = (case fst (analyze_current_screen env force_new s) of
                Inl e \<Rightarrow> cached_analysis s
              | Inr a \<Rightarrow> Some a)"
    and "trace (snd (analyze_current_screen env force_new s)) = trace s @ [EvCapture]"
  using assms
  by (auto simp: analyze_current_screen_def emit_def Let_def split: prod.splits sum.splits)

text \<open>
  C5. When the cache holds an observation, \<^verbatim>\<open>analyze_current_screen()\<close> returns that
  very observation and leaves the whole state, the world with it, as it was: the capture
  back end is not called. A second call, right after the first, does the same. After
  \<^verbatim>\<open>clear_cache()\<close> the next call, forced or not, calls the capture back end once: the
  world it leaves is the world that one call of \<^verbatim>\<open>capture_full_screen\<close> leaves from the
  world before, the result is the analysis of the image that call returned (or the
  exception raised on the way), a result that is an observation is the new content of the
  cache, and the trace has gained one capture.
\<close>

theorem cache_reuse_and_invalidation:
  "(cached_analysis s = Some obs \<longrightarrow>
      analyze_current_screen env False s = (Inr obs, s)
      \<and> (case analyze_current_screen env False s of
            (r1, s1) \<Rightarrow> analyze_current_screen env False s1 = (Inr obs, s)))
   \<and> world (snd (analyze_current_screen env force_new (clear_cache site s)))
       = snd (capture_full_screen env (world s))
   \<and> fst (analyze_current_screen env force_new (clear_cache site s))
       = (case fst (capture_full_screen env (world s)) of
            Inl e \<Rightarrow> Inl e
          | Inr img \<Rightarrow> analyse_image env img)
   \<and> cached_analysis (snd (analyze_current_screen env force_new (clear_cache site s)))
       = (case fst (analyze_current_screen env force_new (clear_cache site s)) of
            Inl e \<Rightarrow> None
          | Inr a \<Rightarrow> Some a)
   \<and> captures (trace (snd (analyze_current_screen env force_new (clear_cache site s))))
       = Suc (captures (trace s))"
proof (intro conjI impI)
  assume c: "cached_analysis s = Some obs"
  show "analyze_current_screen env False s = (Inr obs, s)"
    by (rule analyze_cached[OF c])
  then show "case analyze_current_screen env False s of
               (r1, s1) \<Rightarrow> analyze_current_screen env False s1 = (Inr obs, s)"
    by simp
next
  have n: "force_new \<or> cached_analysis (clear_cache site s) = None"
    by (simp add: clear_cache_def emit_def)
  have w: "world (clear_cache site s) = world s"
    and c: "cached_analysis (clear_cache site s) = None"
    and t: "trace (clear_cache site s) = trace s @ [EvInvalidate site]"
    by (simp_all add: clear_cache_def emit_def)
  show "world (snd (analyze_current_screen env force_new (clear_cache site s)))
          = snd (capture_full_screen env (world s))"
    using analyze_uncached(1)[OF n, of env] by (simp add: w)
  show "fst (analyze_current_screen env force_new (clear_cache site s))
          = (case fst (capture_full_screen env (world s)) of
               Inl e \<Rightarrow> Inl e
             | Inr img \<Rightarrow> analyse_image env img)"
    using analyze_uncached(2)[OF n, of env] by (simp add: w)
  show "cached_analysis (snd (analyze_current_screen env force_new (clear_cache site s)))
          = (case fst (analyze_current_screen env force_new (clear_cache site s)) of
               Inl e \<Rightarrow> None
             | Inr a \<Rightarrow> Some a)"
    using analyze_uncached(3)[OF n, of env] by (simp add: c split: sum.splits)
  show "captures (trace (snd (analyze_current_screen env force_new (clear_cache site s))))
          = Suc (captures (trace s))"
    using analyze_uncached(4)[OF n, of env]
    by (simp add: t captures_append) (simp add: captures_def)
qed

text \<open>
  In the world that counts its captures: the first observation is screenshot 0 and leaves
  the count at 1; observing again returns the same observation and leaves the count at 1;
  after an invalidation the next observation is screenshot 1 and the count is 2.
\<close>

theorem cache_reuse_and_invalidation_witness:
  "cached_analysis (snd (analyze_current_screen counting_env False counting_agent))
     = Some \<lparr>text_elements = [], ui_buttons = [], raw_text = ''screen 0'', screenshot = 0\<rparr>
   \<and> world (snd (analyze_current_screen counting_env False counting_agent)) = 1
   \<and> analyze_current_screen counting_env False
        (snd (analyze_current_screen counting_env False counting_agent))
     = (Inr \<lparr>text_elements = [], ui_buttons = [], raw_text = ''screen 0'', screenshot = 0\<rparr>,
        snd (analyze_current_screen counting_env False counting_agent))
   \<and> world (snd (analyze_current_screen counting_env False
        (clear_cache (AfterAction 1)
           (snd (analyze_current_screen counting_env False counting_agent))))) = 2
   \<and> fst (analyze_current_screen counting_env False
        (clear_cache (AfterAction 1)
           (snd (analyze_current_screen counting_env False counting_agent))))
     = Inr \<lparr>text_elements = [], ui_buttons = [], raw_text = ''screen 1'', screenshot = 1\<rparr>
   \<and> captures (trace (snd (analyze_current_screen counting_env False
        (clear_cache (AfterAction 1)
           (snd (analyze_current_screen counting_env False counting_agent)))))) = 2"
proof -
  let ?obs = "\<lparr>text_elements = [], ui_buttons = [], raw_text = ''screen 0'', screenshot = 0::nat\<rparr>"
  let ?s = "snd (analyze_current_screen counting_env False counting_agent)"
  have h: "cached_analysis ?s = Some ?obs"
    by (simp add: analyze_current_screen_def analyse_image_def emit_def env_eval
          str_of_nat.simps digits_def)
  have w: "world ?s = 1"
    by (simp add: analyze_current_screen_def analyse_image_def emit_def env_eval)
  have n: "captures (trace ?s) = 1"
    by (simp add: analyze_current_screen_def analyse_image_def emit_def env_eval captures_def)
  have cap: "capture_full_screen counting_env (world ?s) = (Inr 1, 2)"
    by (simp add: w) (simp add: env_eval)
  have img: "analyse_image counting_env 1
               = Inr \<lparr>text_elements = [], ui_buttons = [], raw_text = ''screen 1'', screenshot = 1\<rparr>"
    by (simp add: analyse_image_def env_eval str_of_nat.simps digits_def)
  note T = cache_reuse_and_invalidation[of ?s ?obs counting_env False "AfterAction 1"]
  from T h have a: "analyze_current_screen counting_env False ?s = (Inr ?obs, ?s)"
    by (simp only: simp_thms)
  from T cap have b: "world (snd (analyze_current_screen counting_env False
                        (clear_cache (AfterAction 1) ?s))) = 2"
    by simp
  from T cap img have c: "fst (analyze_current_screen counting_env False
                        (clear_cache (AfterAction 1) ?s))
        = Inr \<lparr>text_elements = [], ui_buttons = [], raw_text = ''screen 1'', screenshot = 1\<rparr>"
    by simp
  from T n have d: "captures (trace (snd (analyze_current_screen counting_env False
                        (clear_cache (AfterAction 1) ?s)))) = 2"
    by simp
  from h w a b c d show ?thesis by (simp only: simp_thms)
qed

subsection \<open>Task processing\<close>

text \<open>
  C8. When the screen has been analysed and the planner returns the empty plan,
  \<^verbatim>\<open>_process_current_task\<close> returns \<open>False\<close> there and then. The trace gains the
  invalidation and the capture made for planning and the one call of the planner, and
  nothing else: no step is started and no recovery is asked for; the plan and the cursor
  of the context, its action history and the session log are as they were.
\<close>

theorem empty_plan_fails_the_task:
  assumes "capture_full_screen env (world s) = (Inr img, w1)"
      and "analyse_image env img = Inr a"
      and "plan_task env (task_text s) (raw_text a) w1 = (Inr [], w2)"
  shows "\<exists>s'. process_current_task env s = (False, s')
           \<and> trace s' = trace s @ [EvInvalidate BeforePlanning, EvCapture, EvPlanner]
           \<and> world s' = w2
           \<and> session_log s' = session_log s
           \<and> action_history s' = action_history s
           \<and> current_plan s' = current_plan s
           \<and> current_step_index s' = current_step_index s"
  using assms
  by (simp add: process_current_task_def analyze_current_screen_def clear_cache_def emit_def
        add_screen_def task_text_def Let_def)

theorem empty_plan_fails_the_task_witness:
  "capture_full_screen no_plan_env (world ready_agent) = (Inr (), 0)
   \<and> analyse_image no_plan_env ()
       = Inr \<lparr>text_elements = [], ui_buttons = [], raw_text = ''screen'', screenshot = ()\<rparr>
   \<and> plan_task no_plan_env (task_text ready_agent) ''screen'' 0 = (Inr [], 0)
   \<and> (\<exists>s'. process_current_task no_plan_env ready_agent = (False, s')
           \<and> trace s' = trace ready_agent @ [EvInvalidate BeforePlanning, EvCapture, EvPlanner]
           \<and> world s' = 0
           \<and> session_log s' = session_log ready_agent
           \<and> action_history s' = action_history ready_agent
           \<and> current_plan s' = current_plan ready_agent
           \<and> current_step_index s' = current_step_index ready_agent)"
proof -
  let ?obs = "\<lparr>text_elements = [], ui_buttons = [], raw_text = ''screen'', screenshot = ()\<rparr>"
  have h1: "capture_full_screen no_plan_env (world ready_agent) = (Inr (), 0)"
    by (simp add: env_eval)
  have h2: "analyse_image no_plan_env () = Inr ?obs"
    by (simp add: analyse_image_def env_eval)
  have h3: "plan_task no_plan_env (task_text ready_agent) (raw_text ?obs) 0 = (Inr [], 0)"
    by (simp add: env_eval)
  from empty_plan_fails_the_task[OF h1 h2 h3] h1 h2 h3 show ?thesis
    by simp
qed

subsection \<open>Deterministic steps\<close>

lemma run_details_flag:
  "run_details env ds ok s = (Inr ok', s')
     \<Longrightarrow> ok' = (ok \<or> True \<in> set (detail_results env ds s))
         \<and> length (detail_results env ds s) = length ds"
proof (induction ds arbitrary: ok s)
  case Nil
  then show ?case by simp
next
  case (Cons d ds)
  obtain r s1 where rd: "run_detail env d s = (r, s1)"
    by (cases "run_detail env d s")
  show ?case
  proof (cases r)
    case (Inl e)
    with Cons.prems rd show ?thesis by simp
  next
    case (Inr b)
    with Cons.prems rd have "run_details env ds (ok \<or> b) s1 = (Inr ok', s')"
      by simp
    from Cons.IH[OF this] rd Inr show ?thesis by auto
  qed
qed

text \<open>
  The rule of the deterministic step, for a step none of whose lines raises out of the
  loop: every line is executed, the step succeeds exactly when at least one line did, and
  the plan goes on with the next step unless no line succeeded and the step is the last.
\<close>

lemma deterministic_step_rule:
  assumes "details step \<noteq> []"
      and "is_running (poll_owner env (emit (EvStep idx) s))"
      and "\<not> is_paused (poll_owner env (emit (EvStep idx) s))"
      and "run_details env (details step) False (poll_owner env (emit (EvStep idx) s))
             = (Inr step_succeeded, s2)"
  shows "(step_succeeded \<longleftrightarrow>
            True \<in> set (detail_results env (details step) (poll_owner env (emit (EvStep idx) s))))
       \<and> length (detail_results env (details step) (poll_owner env (emit (EvStep idx) s)))
           = length (details step)
       \<and> execute_steps env total_steps idx (step # rest) s =
           (if \<not> step_succeeded \<and> idx = total_steps then (Inr False, s2)
            else execute_steps env total_steps (Suc idx) rest s2)"
proof -
  from run_details_flag[OF assms(4)]
  have a: "step_succeeded \<longleftrightarrow>
             True \<in> set (detail_results env (details step) (poll_owner env (emit (EvStep idx) s)))"
    and b: "length (detail_results env (details step) (poll_owner env (emit (EvStep idx) s)))
              = length (details step)"
    by simp_all
  from assms have c: "execute_step env total_steps idx step s =
      (if \<not> step_succeeded \<and> idx = total_steps then (Returned False, s2) else (Continue, s2))"
    by (simp add: execute_step_def Let_def)
  have d: "execute_steps env total_steps idx (step # rest) s =
           (if \<not> step_succeeded \<and> idx = total_steps then (Inr False, s2)
            else execute_steps env total_steps (Suc idx) rest s2)"
    by (simp add: c)
  show ?thesis by (intro conjI a b d)
qed

text \<open>
  The sleep of a \<^verbatim>\<open>WAIT\<close> line stands outside every \<^verbatim>\<open>try\<close>: what it raises leaves
  the loop over the lines, the step and the plan.
\<close>

lemma raising_wait_leaves_the_plan:
  assumes "is_running (poll_owner env (emit (EvStep idx) s))"
      and "\<not> is_paused (poll_owner env (emit (EvStep idx) s))"
      and "starts_with ''WAIT'' (py_upper detail)"
      and "time_sleep env (parse_wait_duration (py_float env) detail)
             (world (poll_owner env (emit (EvStep idx) s))) = (Inl e, w')"
  shows "execute_steps env total_steps idx
           (\<lparr>number = n, description = d, details = detail # others\<rparr> # rest) s
         = (Inl e, (poll_owner env (emit (EvStep idx) s))\<lparr>world := w'\<rparr>)"
  using assms by (simp add: execute_step_def run_detail_def Let_def)

text \<open>
  C4. On a plan of two deterministic steps whose first step is the one line
  \<^verbatim>\<open>WAIT -1\<close>, the sleep raises, the exception leaves the plan, and step 2 is never
  started, although step 1 is not the last step. When the first step is a click that
  succeeds followed by \<^verbatim>\<open>WAIT -1\<close>, a line of the step has succeeded and still the step
  does not: the plan is left in the same way.
\<close>

theorem negative_wait_aborts_the_plan:
  "fst (execute_plan strict_sleep_env (set_plan negative_wait_steps ready_agent))
     = Inl ''sleep length must be non-negative''
   \<and> trace (snd (execute_plan strict_sleep_env (set_plan negative_wait_steps ready_agent)))
       = [EvStep 1]
   \<and> detail_results strict_sleep_env [''CLICK 10 10'', ''WAIT -1'']
        (poll_owner strict_sleep_env (emit (EvStep 1)
           (set_plan click_then_negative_wait_steps ready_agent)))
       = [True]
   \<and> fst (execute_plan strict_sleep_env (set_plan click_then_negative_wait_steps ready_agent))
       = Inl ''sleep length must be non-negative''
   \<and> trace (snd (execute_plan strict_sleep_env
        (set_plan click_then_negative_wait_steps ready_agent)))
       = [EvStep 1]"
  by (simp add: env_eval loop_eval string_eval run_detail_def direct_click_def
        click_target_def parse_wait_duration_def)

subsection \<open>Decision-driven steps\<close>

text \<open>
  The template call of \<^verbatim>\<open>decide_next_action\<close> passes the keyword \<^verbatim>\<open>current_step\<close> to
  a function whose parameter is \<^verbatim>\<open>current_step_description\<close>: every call raises, before
  the language model is asked, and the world is as it was. The call of \<^verbatim>\<open>handle_error\<close>
  binds.
\<close>

lemma decide_next_action_raises:
  "decide_next_action env task_description current_step screen_description w
     = (Inl unexpected_current_step, w)"
  by (simp add: decide_next_action_def check_keywords_def action_decision_prompt_params_def
        unexpected_current_step_def)

lemma handle_error_binds:
  "handle_error env task_description failed_action screen_description w
     = generate_recovery env task_description failed_action screen_description w"
  by (simp add: handle_error_def check_keywords_def error_handling_prompt_params_def)

text \<open>
  So no decision-driven step gets as far as the dispatcher: the step raises, either what
  the observation raised or the \<^verbatim>\<open>TypeError\<close> of the template call, and the session log
  and the action history are as they were.
\<close>

lemma attempt_step_raises:
  "\<exists>e s'. attempt_step env idx step s = (Inl e, s')
           \<and> session_log s' = session_log s \<and> action_history s' = action_history s
           \<and> current_step_index s' = current_step_index s"
  by (auto simp: attempt_step_def decide_next_action_raises analyze_current_screen_def
        clear_cache_def emit_def add_screen_def Let_def
      split: prod.splits sum.splits option.splits)

lemma decision_step_raises:
  "\<exists>e s'. decision_step env idx step s = (Raised e, s')
           \<and> session_log s' = session_log s \<and> action_history s' = action_history s
           \<and> current_step_index s' = current_step_index s"
proof -
  from attempt_step_raises[of env idx step s] obtain e s' where
    "attempt_step env idx step s = (Inl e, s')" "session_log s' = session_log s"
    "action_history s' = action_history s" "current_step_index s' = current_step_index s"
    by blast
  then show ?thesis by (simp add: decision_step_def)
qed

text \<open>
  C7. A plan of three decision-driven steps, run with collaborators that all succeed (the
  language model would answer each prompt with a well-formed action, every controller
  call returns, the observation for planning is cached). The plan does not complete:
  step 1 raises the \<^verbatim>\<open>TypeError\<close> of the template call, no action is dispatched or
  logged, no invalidation after an action is made, steps 2 and 3 are never started, and
  the task that has this plan ends as failed.
\<close>

theorem decision_driven_plan_raises:
  "fst (execute_plan quiet_env (set_plan good_steps observed_agent))
     = Inl unexpected_current_step
   \<and> trace (snd (execute_plan quiet_env (set_plan good_steps observed_agent)))
       = [EvInvalidate BeforePlanning, EvCapture, EvStep 1]
   \<and> session_log (snd (execute_plan quiet_env (set_plan good_steps observed_agent)))
       = [LogSessionStart]
   \<and> action_history (snd (execute_plan quiet_env (set_plan good_steps observed_agent))) = []
   \<and> steps_started (trace (snd (execute_plan quiet_env (set_plan good_steps observed_agent))))
       = 1
   \<and> invalidations_after_actions
        (trace (snd (execute_plan quiet_env (set_plan good_steps observed_agent)))) = 0
   \<and> invalidations_before_steps
        (trace (snd (execute_plan quiet_env (set_plan good_steps observed_agent)))) = 0
   \<and> fst (process_current_task quiet_env
        (ready_agent\<lparr>current_task := Some ''PRESS a;WAIT 1;PRESS c''\<rparr>)) = False
   \<and> task_status (run_task quiet_env ''PRESS a;WAIT 1;PRESS c'' ready_agent) = ''failed''"
  by (simp add: env_eval loop_eval string_eval process_current_task_def run_task_def
        log_task_completion_def set_task_failed_def set_task_completed_def steps_started_def
        invalidations_after_actions_def invalidations_before_steps_def)

subsection \<open>Recovery after a failed decision-driven step\<close>

text \<open>
  The failure branch, taken by itself. With advice that contains \<^verbatim>\<open>RETRY\<close> in any
  letter case it sets the cursor of the context to \<open>max 0 (idx - 2)\<close>, which is 0 at
  \<open>idx = 1\<close>, and ends the iteration with \<^verbatim>\<open>continue\<close>; with any other advice it
  returns \<open>False\<close> and leaves the cursor alone. An iteration that ends with
  \<^verbatim>\<open>continue\<close> is followed by the next step of the plan: the loop never reads the cursor.
\<close>

lemma recovery_branch:
  assumes "generate_recovery env (task_text s) action (raw_text analysis) (world s)
             = (Inr advice, w')"
  shows "recover env idx action analysis s =
          (if contains ''RETRY'' (py_upper advice)
           then (Continue, (emit (EvHandleError idx) s)
                             \<lparr>world := w', current_step_index := max 0 (int idx - 2)\<rparr>)
           else (Returned False, (emit (EvHandleError idx) s)\<lparr>world := w'\<rparr>))"
  using assms by (simp add: recover_def handle_error_binds emit_def task_text_def Let_def)

lemma continue_goes_to_the_next_step:
  "execute_step env total_steps idx step s = (Continue, s')
     \<Longrightarrow> execute_steps env total_steps idx (step # rest) s
           = execute_steps env total_steps (Suc idx) rest s'"
  by simp


subsection \<open>Pause and stop\<close>

lemma apply_call_fields:
  "trace (apply_call s c) = trace s
   \<and> cached_analysis (apply_call s c) = cached_analysis s
   \<and> session_log (apply_call s c) = session_log s
   \<and> current_step_index (apply_call s c) = current_step_index s
   \<and> current_plan (apply_call s c) = current_plan s
   \<and> action_history (apply_call s c) = action_history s
   \<and> screen_history (apply_call s c) = screen_history s
   \<and> current_task (apply_call s c) = current_task s
   \<and> task_queue (apply_call s c) = task_queue s
   \<and> task_status (apply_call s c) = task_status s
   \<and> world (apply_call s c) = world s"
  by (cases c) (simp_all add: apply_call_def pause_def resume_def stop_def)

lemma foldl_apply_call_fields:
  "trace (foldl apply_call s cs) = trace s
   \<and> cached_analysis (foldl apply_call s cs) = cached_analysis s
   \<and> session_log (foldl apply_call s cs) = session_log s
   \<and> current_step_index (foldl apply_call s cs) = current_step_index s
   \<and> current_plan (foldl apply_call s cs) = current_plan s
   \<and> action_history (foldl apply_call s cs) = action_history s
   \<and> screen_history (foldl apply_call s cs) = screen_history s
   \<and> current_task (foldl apply_call s cs) = current_task s
   \<and> task_queue (foldl apply_call s cs) = task_queue s
   \<and> task_status (foldl apply_call s cs) = task_status s
   \<and> world (foldl apply_call s cs) = world s"
proof (induction cs arbitrary: s)
  case Nil
  then show ?case by simp
next
  case (Cons c cs)
  show ?case
    by (simp add: Cons.IH apply_call_fields)
qed

text \<open>Reading the flags changes the flags and the world, nothing else.\<close>

lemma poll_owner_fields:
  "trace (poll_owner env s) = trace s"
  "cached_analysis (poll_owner env s) = cached_analysis s"
  "session_log (poll_owner env s) = session_log s"
  "current_step_index (poll_owner env s) = current_step_index s"
  "current_plan (poll_owner env s) = current_plan s"
  "action_history (poll_owner env s) = action_history s"
  "screen_history (poll_owner env s) = screen_history s"
  "current_task (poll_owner env s) = current_task s"
  "task_queue (poll_owner env s) = task_queue s"
  "task_status (poll_owner env s) = task_status s"
  "world (poll_owner env s) = snd (owner_calls env (world s))"
  by (simp_all add: poll_owner_def foldl_apply_call_fields split: prod.splits)

lemma analyze_keeps_current_task:
  "current_task (snd (analyze_current_screen env force_new s)) = current_task s"
  by (auto simp: analyze_current_screen_def emit_def Let_def
      split: prod.splits sum.splits option.splits)

text \<open>An iteration never makes the plan return \<open>True\<close>: only the end of the loop does.\<close>

lemma recover_never_returns_true:
  "recover env idx action analysis s \<noteq> (Returned True, s')"
  by (auto simp: recover_def Let_def split: prod.splits sum.splits)

lemma execute_step_never_returns_true:
  "execute_step env total_steps idx step s \<noteq> (Returned True, s')"
  by (auto simp: execute_step_def decision_step_def recover_never_returns_true Let_def
      split: prod.splits sum.splits if_splits)

lemma execute_steps_append:
  "execute_steps env total_steps idx xs s = (Inr True, s')
     \<Longrightarrow> execute_steps env total_steps idx (xs @ ys) s
           = execute_steps env total_steps (idx + length xs) ys s'"
proof (induction xs arbitrary: idx s)
  case Nil
  then show ?case by simp
next
  case (Cons x xs)
  obtain f s1 where st: "execute_step env total_steps idx x s = (f, s1)"
    by (cases "execute_step env total_steps idx x s")
  show ?case
  proof (cases f)
    case Continue
    with st Cons.prems have "execute_steps env total_steps (Suc idx) xs s1 = (Inr True, s')"
      by simp
    from Cons.IH[OF this] st Continue show ?thesis by simp
  next
    case (Returned b)
    with st Cons.prems have "execute_step env total_steps idx x s = (Returned True, s1)"
      by simp
    with execute_step_never_returns_true show ?thesis by blast
  next
    case (Raised e)
    with st Cons.prems show ?thesis by simp
  qed
qed

text \<open>Nothing in the execution of a plan touches the queue of tasks.\<close>

lemma analyze_keeps_queue:
  "task_queue (snd (analyze_current_screen env force_new s)) = task_queue s"
  by (auto simp: analyze_current_screen_def emit_def Let_def
      split: prod.splits sum.splits option.splits)

lemma run_detail_keeps_queue:
  "task_queue (snd (run_detail env detail s)) = task_queue s"
  by (auto simp: run_detail_def direct_click_def add_action_def Let_def
      split: prod.splits sum.splits option.splits if_splits)

lemma run_details_keeps_queue:
  "task_queue (snd (run_details env ds ok s)) = task_queue s"
proof (induction ds arbitrary: ok s)
  case Nil
  then show ?case by simp
next
  case (Cons d ds)
  obtain r s1 where rd: "run_detail env d s = (r, s1)"
    by (cases "run_detail env d s")
  with run_detail_keeps_queue[of env d s] have q: "task_queue s1 = task_queue s"
    by simp
  show ?case
    using rd q Cons.IH by (cases r) simp_all
qed

lemma attempt_step_keeps_queue:
  "task_queue (snd (attempt_step env idx step s)) = task_queue s"
proof -
  let ?s1 = "if idx > 1 then clear_cache (BeforeStep idx) s else s"
  have q1: "task_queue ?s1 = task_queue s"
    by (simp add: clear_cache_def emit_def)
  obtain r s2 where an: "analyze_current_screen env False ?s1 = (r, s2)"
    by (cases "analyze_current_screen env False ?s1")
  with analyze_keeps_queue[of env False ?s1] q1 have q2: "task_queue s2 = task_queue s"
    by simp
  show ?thesis
  proof (cases r)
    case (Inl e)
    with an q2 show ?thesis by (simp add: attempt_step_def Let_def)
  next
    case (Inr a)
    with an q2 show ?thesis
      by (simp add: attempt_step_def Let_def decide_next_action_raises add_screen_def)
  qed
qed

lemma decision_step_keeps_queue:
  "task_queue (snd (decision_step env idx step s)) = task_queue s"
proof -
  from attempt_step_raises[of env idx step s] obtain e s' where
    a: "attempt_step env idx step s = (Inl e, s')"
    by blast
  with attempt_step_keeps_queue[of env idx step s] have "task_queue s' = task_queue s"
    by simp
  with a show ?thesis by (simp add: decision_step_def)
qed

lemma execute_step_keeps_queue:
  "task_queue (snd (execute_step env total_steps idx step s)) = task_queue s"
proof -
  let ?s1 = "poll_owner env (emit (EvStep idx) s)"
  have q1: "task_queue ?s1 = task_queue s"
    by (simp add: poll_owner_fields emit_def)
  show ?thesis
    using q1 run_details_keeps_queue[of env "details step" False ?s1]
      decision_step_keeps_queue[of env idx step ?s1]
    by (auto simp: execute_step_def Let_def split: prod.splits sum.splits)
qed

lemma execute_steps_keeps_queue:
  "task_queue (snd (execute_steps env total_steps idx steps s)) = task_queue s"
proof (induction steps arbitrary: idx s)
  case Nil
  then show ?case by simp
next
  case (Cons x xs)
  obtain f s1 where st: "execute_step env total_steps idx x s = (f, s1)"
    by (cases "execute_step env total_steps idx x s")
  with execute_step_keeps_queue[of env total_steps idx x s] have q: "task_queue s1 = task_queue s"
    by simp
  show ?case
    using st q Cons.IH by (cases f) simp_all
qed

text \<open>
  With an empty queue the agent loop executes nothing, for however long it runs and
  whatever the owner calls: it only reads its flags.
\<close>

lemma idle_agent_loop:
  "task_queue s = [] \<Longrightarrow>
     trace (agent_loop env fuel s) = trace s
     \<and> session_log (agent_loop env fuel s) = session_log s
     \<and> action_history (agent_loop env fuel s) = action_history s
     \<and> current_step_index (agent_loop env fuel s) = current_step_index s
     \<and> current_plan (agent_loop env fuel s) = current_plan s
     \<and> task_status (agent_loop env fuel s) = task_status s
     \<and> current_task (agent_loop env fuel s) = current_task s
     \<and> task_queue (agent_loop env fuel s) = []"
proof (induction fuel arbitrary: s)
  case 0
  then show ?case by simp
next
  case (Suc fuel)
  have q: "task_queue (poll_owner env s) = []"
    using Suc.prems by (simp add: poll_owner_fields)
  from Suc.IH[OF q] q show ?case
    by (simp add: Let_def poll_owner_fields)
qed

text \<open>
  C2, as the code has it. The agent loop takes the only task queued; the screen is
  analysed and the planner returns a plan; the steps before step \<open>i\<close> run through; and
  the check that opens step \<open>i\<close> finds the agent paused or stopped. Then the plan returns
  \<open>False\<close> at once, in the very state the check read: the cursor, the action history, the
  session log and the cache are those from before the step, and the trace has gained the
  start of the step and nothing else. The task is recorded as failed and dropped. And for
  however long the loop runs afterwards, whatever the owner calls, \<^verbatim>\<open>resume\<close> included,
  the trace and the action history stay as the interrupted check left them: step \<open>i\<close> is
  not entered again.
\<close>

theorem pause_ends_the_plan:
  assumes "is_running (poll_owner env s0)"
      and "\<not> is_paused (poll_owner env s0)"
      and "task_queue s0 = [t]"
      and "sA = (poll_owner env s0)\<lparr>task_queue := [], current_task := Some t\<rparr>"
      and "analyze_current_screen env True (clear_cache BeforePlanning sA) = (Inr a, sB)"
      and "plan_task env t (raw_text a) (world sB) = (Inr (pre @ step # rest), wC)"
      and "sP = set_plan (pre @ step # rest) ((emit EvPlanner (add_screen a sB))\<lparr>world := wC\<rparr>)"
      and "execute_steps env (length (pre @ step # rest)) 1 pre sP = (Inr True, s_pre)"
      and "sI = poll_owner env (emit (EvStep (Suc (length pre))) s_pre)"
      and "\<not> is_running sI \<or> is_paused sI"
  shows "execute_steps env (length (pre @ step # rest)) (Suc (length pre)) (step # rest) s_pre
           = (Inr False, sI)
       \<and> current_step_index sI = current_step_index s_pre
       \<and> action_history sI = action_history s_pre
       \<and> session_log sI = session_log s_pre
       \<and> cached_analysis sI = cached_analysis s_pre
       \<and> world sI = snd (owner_calls env (world s_pre))
       \<and> trace sI = trace s_pre @ [EvStep (Suc (length pre))]
       \<and> trace (agent_loop env (Suc fuel) s0) = trace sI
       \<and> action_history (agent_loop env (Suc fuel) s0) = action_history sI
       \<and> session_log (agent_loop env (Suc fuel) s0) = session_log sI @ [LogTaskEnd False]
       \<and> current_step_index (agent_loop env (Suc fuel) s0) = current_step_index s_pre
       \<and> task_status (agent_loop env (Suc fuel) s0) = ''failed''
       \<and> current_task (agent_loop env (Suc fuel) s0) = None"
proof -
  let ?plan = "pre @ step # rest"
  let ?n = "length ?plan"
  from assms(9,10) have stp: "execute_step env ?n (Suc (length pre)) step s_pre
                               = (Returned False, sI)"
    by (auto simp: execute_step_def Let_def)
  then have a: "execute_steps env ?n (Suc (length pre)) (step # rest) s_pre = (Inr False, sI)"
    by simp
  have whole: "execute_steps env ?n 1 ?plan sP = (Inr False, sI)"
    using execute_steps_append[OF assms(8), of "step # rest"] a by simp
  have plan_sP: "current_plan sP = ?plan"
    using assms(7) by (simp add: set_plan_def)
  have ep: "execute_plan env sP = (Inr False, sI)"
    using whole plan_sP by (simp add: execute_plan_def Let_def)
  have sB: "sB = snd (analyze_current_screen env True (clear_cache BeforePlanning sA))"
    using assms(5) by simp
  have tt: "task_text (emit EvPlanner (add_screen a sB)) = t"
    unfolding sB using assms(4)
    by (simp add: task_text_def emit_def add_screen_def analyze_keeps_current_task
          clear_cache_def)
  have pct: "process_current_task env sA = (False, sI)"
    using assms(5,6) ep tt assms(7)
    by (simp add: process_current_task_def Let_def emit_def add_screen_def)
  let ?s1 = "(poll_owner env s0)\<lparr>task_queue := []\<rparr>"
  let ?sF = "set_task_failed (log_task_completion False (sI\<lparr>current_task := None\<rparr>))"
  have sA': "?s1\<lparr>current_task := Some t\<rparr> = sA"
    using assms(4) by simp
  have rt: "run_task env t ?s1 = ?sF"
    by (simp only: run_task_def sA' pct) (simp add: Let_def)
  have q0: "task_queue (poll_owner env s0) = [t]"
    using assms(3) by (simp add: poll_owner_fields)
  have loop: "agent_loop env (Suc fuel) s0 = agent_loop env fuel ?sF"
    using assms(1,2) q0 rt by (simp add: Let_def)
  have fld: "current_step_index sI = current_step_index s_pre"
    "action_history sI = action_history s_pre" "session_log sI = session_log s_pre"
    "cached_analysis sI = cached_analysis s_pre"
    "world sI = snd (owner_calls env (world s_pre))"
    "trace sI = trace s_pre @ [EvStep (Suc (length pre))]"
    using assms(9) by (simp_all add: poll_owner_fields emit_def)
  have qB: "task_queue sB = []"
    unfolding sB using assms(4) analyze_keeps_queue[of env True "clear_cache BeforePlanning sA"]
    by (simp add: clear_cache_def emit_def)
  have qP: "task_queue sP = []"
    using assms(7) qB by (simp add: set_plan_def emit_def add_screen_def)
  have qpre: "task_queue s_pre = []"
    using assms(8) qP execute_steps_keeps_queue[of env ?n 1 pre sP] by simp
  have tq: "task_queue sI = []"
    using assms(9) qpre by (simp add: poll_owner_fields emit_def)
  have qF: "task_queue ?sF = []"
    using tq by (simp add: set_task_failed_def log_task_completion_def)
  have fF: "trace ?sF = trace sI" "action_history ?sF = action_history sI"
    "session_log ?sF = session_log sI @ [LogTaskEnd False]"
    "current_step_index ?sF = current_step_index sI" "task_status ?sF = ''failed''"
    "current_task ?sF = None"
    by (simp_all add: set_task_failed_def log_task_completion_def)
  from idle_agent_loop[OF qF, of env fuel] a fld fF show ?thesis
    by (simp only: loop)
qed

theorem pause_ends_the_plan_witness:
  "is_running (poll_owner pausing_env submitted_agent)
   \<and> is_paused (poll_owner pausing_env submitted_agent) = False
   \<and> task_queue submitted_agent = [''PRESS a;PRESS b'']
   \<and> execute_steps pausing_env 2 1 [hd two_deterministic_steps] planned_agent
       = (Inr True, after_step_1)
   \<and> action_history after_step_1
       = [([(''type'', PStr ''press''), (''key'', PStr ''a'')], True, ''Pressed key: a'')]
   \<and> is_paused (poll_owner pausing_env (emit (EvStep 2) after_step_1))
   \<and> execute_steps pausing_env 2 2 (tl two_deterministic_steps) after_step_1
       = (Inr False, poll_owner pausing_env (emit (EvStep 2) after_step_1))
   \<and> trace (agent_loop pausing_env (Suc 8) submitted_agent)
       = [EvInvalidate BeforePlanning, EvCapture, EvPlanner, EvStep 1, EvStep 2]
   \<and> action_history (agent_loop pausing_env (Suc 8) submitted_agent)
       = [([(''type'', PStr ''press''), (''key'', PStr ''a'')], True, ''Pressed key: a'')]
   \<and> current_step_index (agent_loop pausing_env (Suc 8) submitted_agent) = 0
   \<and> task_status (agent_loop pausing_env (Suc 8) submitted_agent) = ''failed''
   \<and> current_task (agent_loop pausing_env (Suc 8) submitted_agent) = None"
proof -
  let ?t = "''PRESS a;PRESS b''"
  let ?st1 = "\<lparr>number = 1, description = ''PRESS a'', details = [''PRESS a'']\<rparr>"
  let ?st2 = "\<lparr>number = 2, description = ''PRESS b'', details = [''PRESS b'']\<rparr>"
  let ?sB = "snd (analyze_current_screen pausing_env True (clear_cache BeforePlanning taken_agent))"
  let ?sI = "poll_owner pausing_env (emit (EvStep 2) after_step_1)"
  have plan: "two_deterministic_steps = [?st1, ?st2]"
    by (simp add: env_eval)
  have h1: "is_running (poll_owner pausing_env submitted_agent)"
    and h2: "\<not> is_paused (poll_owner pausing_env submitted_agent)"
    and h3: "task_queue submitted_agent = [?t]"
    by (simp_all add: poll_owner_def env_eval)
  have h4: "taken_agent = (poll_owner pausing_env submitted_agent)
                            \<lparr>task_queue := [], current_task := Some ?t\<rparr>"
    by (simp add: taken_agent_def)
  have h5: "analyze_current_screen pausing_env True (clear_cache BeforePlanning taken_agent)
              = (Inr screen_seen, ?sB)"
    by (simp add: prod_eq_iff analyze_current_screen_def analyse_image_def clear_cache_def
          emit_def poll_owner_def env_eval)
  have wB: "world ?sB = 1"
    by (simp add: analyze_current_screen_def analyse_image_def clear_cache_def
          emit_def poll_owner_def env_eval)
  have h6: "plan_task pausing_env ?t (raw_text screen_seen) (world ?sB)
              = (Inr ([?st1] @ ?st2 # []), 1)"
    by (simp add: wB) (simp add: env_eval)
  have h7: "planned_agent = set_plan ([?st1] @ ?st2 # [])
              ((emit EvPlanner (add_screen screen_seen ?sB))\<lparr>world := 1\<rparr>)"
    by (simp add: planned_agent_def plan)
  have pre_run: "fst (execute_steps pausing_env 2 1 [?st1] planned_agent) = Inr True"
    by (simp add: planned_agent_def env_eval loop_eval dispatch_eval string_eval
          run_detail_def del: One_nat_def)
  have e0: "execute_steps pausing_env 2 1 [?st1] planned_agent = (Inr True, after_step_1)"
    unfolding after_step_1_def plan list.sel using pre_run
    by (cases "execute_steps pausing_env 2 1 [?st1] planned_agent") (simp only: fst_conv snd_conv)
  have len: "length ([?st1] @ ?st2 # []) = 2"
    by simp
  have h8: "execute_steps pausing_env (length ([?st1] @ ?st2 # [])) 1 [?st1] planned_agent
              = (Inr True, after_step_1)"
    by (simp only: len e0)
  have h9: "?sI = poll_owner pausing_env (emit (EvStep (Suc (length [?st1]))) after_step_1)"
    by (simp add: eval_nat_numeral)
  have ah: "action_history after_step_1
       = [([(''type'', PStr ''press''), (''key'', PStr ''a'')], True, ''Pressed key: a'')]"
    by (simp add: after_step_1_def planned_agent_def env_eval loop_eval dispatch_eval
          string_eval run_detail_def del: One_nat_def)
  have tr: "trace after_step_1 = [EvInvalidate BeforePlanning, EvCapture, EvPlanner, EvStep 1]"
    by (simp add: after_step_1_def planned_agent_def env_eval loop_eval dispatch_eval
          string_eval run_detail_def del: One_nat_def)
  have w1: "world after_step_1 = 2"
    by (simp add: after_step_1_def planned_agent_def env_eval loop_eval dispatch_eval
          string_eval run_detail_def del: One_nat_def)
  have ci: "current_step_index after_step_1 = 0"
    by (simp add: after_step_1_def planned_agent_def env_eval loop_eval dispatch_eval
          string_eval run_detail_def del: One_nat_def)
  have oc: "owner_calls pausing_env 2 = ([Pause], 3)"
    by (simp add: pausing_env_def)
  have p: "is_paused ?sI"
    by (simp add: poll_owner_def emit_def w1 oc apply_call_def pause_def)
  then have h10: "\<not> is_running ?sI \<or> is_paused ?sI"
    by simp
  note T = pause_ends_the_plan[OF h1 h2 h3 h4 h5 h6 h7 h8 h9 h10, of 8]
  have e1: "execute_steps pausing_env 2 1 [hd two_deterministic_steps] planned_agent
              = (Inr True, after_step_1)"
    using e0 by (simp only: plan list.sel)
  have e2: "execute_steps pausing_env 2 2 (tl two_deterministic_steps) after_step_1
              = (Inr False, ?sI)"
    using T by (simp add: plan eval_nat_numeral)
  have f1: "trace (agent_loop pausing_env (Suc 8) submitted_agent)
              = [EvInvalidate BeforePlanning, EvCapture, EvPlanner, EvStep 1, EvStep 2]"
    using T tr by (simp add: eval_nat_numeral)
  have f2: "action_history (agent_loop pausing_env (Suc 8) submitted_agent)
       = [([(''type'', PStr ''press''), (''key'', PStr ''a'')], True, ''Pressed key: a'')]"
    using T ah by simp
  have f3: "current_step_index (agent_loop pausing_env (Suc 8) submitted_agent) = 0"
    using T ci by simp
  have f4: "task_status (agent_loop pausing_env (Suc 8) submitted_agent) = ''failed''"
    and f5: "current_task (agent_loop pausing_env (Suc 8) submitted_agent) = None"
    using T by simp_all
  from h1 h2 h3 e1 ah p e2 f1 f2 f3 f4 f5 show ?thesis
    by (simp only: simp_thms)
qed

text \<open>
  C2 as stated fails on this run of the agent loop, in which the owner pauses the agent
  during step 1 of a plan of two deterministic steps and resumes it after the plan has
  been left. The pause is seen at the check of step 2; the task ends as failed and is
  dropped; after the resume the loop is running and not paused, finds the queue empty and
  idles. Step 2 was started once, at the check, and is never entered again: the only
  action ever executed is that of step 1.
\<close>

theorem pause_is_terminal_for_the_plan:
  "task_status (agent_loop pausing_env 4 submitted_agent) = ''failed''
   \<and> is_running (agent_loop pausing_env 4 submitted_agent)
   \<and> is_paused (agent_loop pausing_env 4 submitted_agent) = False
   \<and> current_task (agent_loop pausing_env 4 submitted_agent) = None
   \<and> task_queue (agent_loop pausing_env 4 submitted_agent) = []
   \<and> world (agent_loop pausing_env 4 submitted_agent) = 6
   \<and> trace (agent_loop pausing_env 4 submitted_agent)
       = [EvInvalidate BeforePlanning, EvCapture, EvPlanner, EvStep 1, EvStep 2]
   \<and> action_history (agent_loop pausing_env 4 submitted_agent)
       = [([(''type'', PStr ''press''), (''key'', PStr ''a'')], True, ''Pressed key: a'')]
   \<and> session_log (agent_loop pausing_env 4 submitted_agent)
       = [LogSessionStart, LogTaskStart ''PRESS a;PRESS b'', LogTaskEnd False]"
  by (simp add: eval_nat_numeral env_eval loop_eval dispatch_eval string_eval run_detail_def
        process_current_task_def run_task_def log_task_completion_def set_task_failed_def
        set_task_completed_def)

end
